theory Spec2Isabelle
  imports Main "HOL-Library.Word"
begin

section \<open>Overview\<close>

text \<open>
  A model of the client-side state and synchronisation layer of the movie
  application: the gateway \<^verbatim>\<open>ApiService\<close> (token storage, the axios instance
  with its request and response interceptors, error normalisation, endpoint
  methods) and the two persisted stores \<^verbatim>\<open>useAuthStore\<close> and \<^verbatim>\<open>useAppStore\<close>.
  Browser state, the toasts shown and the requests sent are explicit; the backend,
  the JSON text of a user object and the serialiser of the persist middleware are
  parameters. The first part holds the definitions, the second the properties.
\<close>

section \<open>Data model\<close>

text \<open>
  The records follow the TypeScript interfaces of the repository. A JavaScript
  \<^verbatim>\<open>number\<close> used as a database key or an HTTP status is an \<^typ>\<open>int\<close>;
  \<^verbatim>\<open>T | null\<close> is an \<^typ>\<open>'a option\<close>, and \<open>None\<close> also stands for a value that
  is undefined. Of the \<^verbatim>\<open>Movie\<close> interface the record
  keeps the fields the stores and the gateway read (\<^verbatim>\<open>id\<close>, \<^verbatim>\<open>title\<close>,
  \<^verbatim>\<open>poster_path\<close>, \<^verbatim>\<open>release_date\<close>).
\<close>

record Movie =
  id_M :: int
  title :: string
  poster_path :: "string option"
  release_date :: string

record FavoriteMovie =
  id_F :: int
  movie_id :: int
  title_F :: string
  poster_path_F :: "string option"
  release_date_F :: string
  added_at :: string

record User =
  id_U :: int
  username :: string
  email :: string
  first_name :: string
  last_name :: string

record AuthTokens =
  access :: string
  refresh :: string

record LoginCredentials =
  username_L :: string
  password_L :: string

record RegisterCredentials =
  username_R :: string
  email_R :: string
  password_R :: string
  first_name_R :: "string option"
  last_name_R :: "string option"

record ApiError =
  error :: string
  status :: int

text \<open>
  A search query is a JavaScript string, a sequence of UTF-16 code units:
  \<^verbatim>\<open>String.prototype.trim\<close> is defined on those.
\<close>

type_synonym jsstring = "16 word list"

record AuthState =
  user :: "User option"
  tokens :: "AuthTokens option"
  isAuthenticated :: bool
  isLoading :: bool

record AppState =
  favorites :: "FavoriteMovie list"
  watchlist :: "Movie list"
  recentlyViewed :: "Movie list"
  searchHistory :: "jsstring list"
  isLoading_app :: bool

text \<open>What \<^verbatim>\<open>partialize\<close> keeps of each store for the persist middleware.\<close>

record auth_persisted =
  p_user :: "User option"
  p_tokens :: "AuthTokens option"
  p_isAuthenticated :: bool

record app_persisted =
  p_watchlist :: "Movie list"
  p_recentlyViewed :: "Movie list"
  p_searchHistory :: "jsstring list"

subsection \<open>HTTP requests, replies and errors\<close>

datatype http_verb = GET | POST | PATCH | DELETE

datatype payload =
    no_data
  | login_data LoginCredentials
  | register_data RegisterCredentials
  | refresh_data string
  | favorite_data int string "string option" string

text \<open>
  The request configuration axios hands to the interceptors: \<open>Authorization\<close> is
  \<^verbatim>\<open>config.headers.Authorization\<close> and \<open>retry\<close> is the \<^verbatim>\<open>_retry\<close> mark.
\<close>

record request =
  http_method :: http_verb
  url :: string
  data :: payload
  Authorization :: "string option"
  retry :: bool

text \<open>
  A response body. \<open>error_body e m\<close> is an object with the optional fields
  \<^verbatim>\<open>error\<close> and \<^verbatim>\<open>message\<close>; \<open>profile_body u\<close> is a profile whose
  \<^verbatim>\<open>user\<close> field is \<open>u\<close>.
\<close>

datatype body =
    tokens_body AuthTokens
  | profile_body User
  | user_body User
  | favorite_body FavoriteMovie
  | favorites_body "FavoriteMovie list"
  | error_body "string option" "string option"
  | empty_body

datatype reply = Response int body | NoResponse

text \<open>
  The values the code throws and catches: an axios error that carries a response,
  an axios error whose request got no response, a plain \<^verbatim>\<open>Error\<close> with its
  message, and an already normalised \<^verbatim>\<open>ApiError\<close> object.
\<close>

datatype err =
    AxiosError_response int body request
  | AxiosError_request request
  | Error string
  | Thrown ApiError

datatype toast = toast_success string | toast_error string | toast_plain string

datatype parsed = SyntaxError | json_null | json_value User

subsection \<open>The environment and the state\<close>

text \<open>
  Everything outside the repository is a parameter: the backend (the reply to the
  \<open>n\<close>-th request dispatched), the JSON text of a user object (\<open>JSON_members\<close>
  is what \<^verbatim>\<open>JSON.stringify\<close> puts between the braces, \<open>JSON_parse_user\<close> the
  user object \<^verbatim>\<open>JSON.parse\<close> reads from a text other than the literal
  \<^verbatim>\<open>null\<close>, nothing when it rejects the text), and the serialisers of the
  persist middleware.
\<close>

record env =
  server :: "nat \<Rightarrow> request \<Rightarrow> reply"
  JSON_parse_user :: "string \<Rightarrow> User option"
  JSON_members :: "User \<Rightarrow> string"
  serialize_auth :: "auth_persisted \<Rightarrow> string"
  serialize_app :: "app_persisted \<Rightarrow> string"

text \<open>
  The browser side: whether \<^verbatim>\<open>window\<close> is defined, \<^verbatim>\<open>localStorage\<close>,
  \<^verbatim>\<open>window.location.href\<close>, the number of requests dispatched so far, the
  requests dispatched (oldest first) and the toasts shown (oldest first).
\<close>

record world =
  window :: bool
  localStorage :: "string \<rightharpoonup> string"
  href :: string
  clock :: nat
  sent :: "request list"
  toasts :: "toast list"

record sys =
  world :: world
  auth :: AuthState
  app :: AppState


section \<open>Browser primitives\<close>

definition getItem :: "string \<Rightarrow> world \<Rightarrow> string option" where
  "getItem k w = localStorage w k"

definition setItem :: "string \<Rightarrow> string \<Rightarrow> world \<Rightarrow> world" where
  "setItem k v w = w\<lparr>localStorage := (localStorage w)(k \<mapsto> v)\<rparr>"

definition removeItem :: "string \<Rightarrow> world \<Rightarrow> world" where
  "removeItem k w = w\<lparr>localStorage := (localStorage w)(k := None)\<rparr>"

text \<open>
  JavaScript truthiness of a \<^verbatim>\<open>string | null\<close>: null and the empty string are
  falsy. \<open>truthy_value\<close> is the value of a truthy one, and nothing for a falsy one.
\<close>

definition truthy_value :: "string option \<Rightarrow> string option" where
  "truthy_value v = (case v of None \<Rightarrow> None | Some s \<Rightarrow> if s = [] then None else Some s)"

text \<open>\<^verbatim>\<open>a || b\<close> on strings.\<close>

definition or_else :: "string \<Rightarrow> string \<Rightarrow> string" where
  "or_else a b = (if a \<noteq> [] then a else b)"

definition show_toast :: "toast \<Rightarrow> sys \<Rightarrow> sys" where
  "show_toast t s = s\<lparr>world := (world s)\<lparr>toasts := toasts (world s) @ [t]\<rparr>\<rparr>"

text \<open>
  \<^verbatim>\<open>String.prototype.trim\<close> removes the ECMAScript white space and line
  terminator code units from both ends.
\<close>

definition is_whitespace :: "16 word \<Rightarrow> bool" where
  "is_whitespace c =
     (c \<in> set [0x9, 0xA, 0xB, 0xC, 0xD, 0x20, 0xA0, 0x1680, 0x2028, 0x2029,
               0x202F, 0x205F, 0x3000, 0xFEFF]
      \<or> (0x2000 \<le> c \<and> c \<le> 0x200A))"

definition trim :: "jsstring \<Rightarrow> jsstring" where
  "trim q = rev (dropWhile is_whitespace (rev (dropWhile is_whitespace q)))"

text \<open>
  \<^verbatim>\<open>JSON.stringify\<close> of an object is a text in braces. \<^verbatim>\<open>JSON.parse\<close> gives
  \<^verbatim>\<open>null\<close> for the literal \<^verbatim>\<open>null\<close>, which JSON white space (space, tab,
  line feed, carriage return) may surround, and for no other text.
\<close>

definition JSON_stringify :: "env \<Rightarrow> User \<Rightarrow> string" where
  "JSON_stringify env u = ''{'' @ JSON_members env u @ ''}''"

definition json_whitespace :: "char \<Rightarrow> bool" where
  "json_whitespace c = (c \<in> set [CHR 0x20, CHR 0x09, CHR 0x0A, CHR 0x0D])"

definition json_null_text :: "string \<Rightarrow> bool" where
  "json_null_text v = (rev (dropWhile json_whitespace (rev (dropWhile json_whitespace v))) = ''null'')"

definition JSON_parse :: "env \<Rightarrow> string \<Rightarrow> parsed" where
  "JSON_parse env v =
     (if json_null_text v then json_null
      else case JSON_parse_user env v of None \<Rightarrow> SyntaxError | Some u \<Rightarrow> json_value u)"

text \<open>The accented letters of the French messages, as UTF-8 bytes.\<close>

definition e_acute :: string where "e_acute = [CHR 0xC3, CHR 0xA9]"
definition e_grave :: string where "e_grave = [CHR 0xC3, CHR 0xA8]"
definition a_grave :: string where "a_grave = [CHR 0xC3, CHR 0xA0]"

section \<open>The persist middleware\<close>

text \<open>
  Both stores are created through \<^verbatim>\<open>persist\<close> with a \<^verbatim>\<open>name\<close> and a
  \<^verbatim>\<open>partialize\<close> option. The middleware (a library) stores the partialised state
  under that name after every \<^verbatim>\<open>set\<close>, when a storage exists.
\<close>

definition partialize_auth :: "AuthState \<Rightarrow> auth_persisted" where
  "partialize_auth state =
     \<lparr>p_user = user state, p_tokens = tokens state,
      p_isAuthenticated = isAuthenticated state\<rparr>"

definition partialize_app :: "AppState \<Rightarrow> app_persisted" where
  "partialize_app state =
     \<lparr>p_watchlist = watchlist state, p_recentlyViewed = recentlyViewed state,
      p_searchHistory = searchHistory state\<rparr>"

definition set_auth :: "env \<Rightarrow> (AuthState \<Rightarrow> AuthState) \<Rightarrow> sys \<Rightarrow> sys" where
  "set_auth env f s =
     (let state = f (auth s) in
      s\<lparr>auth := state,
        world := (if window (world s)
                  then setItem ''auth-storage'' (serialize_auth env (partialize_auth state)) (world s)
                  else world s)\<rparr>)"

definition set_app :: "env \<Rightarrow> (AppState \<Rightarrow> AppState) \<Rightarrow> sys \<Rightarrow> sys" where
  "set_app env f s =
     (let state = f (app s) in
      s\<lparr>app := state,
        world := (if window (world s)
                  then setItem ''app-storage'' (serialize_app env (partialize_app state)) (world s)
                  else world s)\<rparr>)"

section \<open>The collection store: local operations\<close>

definition isFavorite :: "int \<Rightarrow> sys \<Rightarrow> bool" where
  "isFavorite movieId s = list_ex (\<lambda>f. movie_id f = movieId) (favorites (app s))"

text \<open>
  \<^verbatim>\<open>addToWatchlist\<close>: the updater given to \<^verbatim>\<open>set\<close> shows its toast and then
  returns either the state it was given or the new watchlist.
\<close>

definition already_in_watchlist :: string where
  "already_in_watchlist =
     ''Ce film est d'' @ e_acute @ ''j'' @ a_grave @ '' dans votre liste '' @ a_grave @ '' regarder''"

definition added_to_watchlist :: string where
  "added_to_watchlist =
     ''Film ajout'' @ e_acute @ '' '' @ a_grave @ '' votre liste '' @ a_grave @ '' regarder!''"

definition addToWatchlist :: "env \<Rightarrow> Movie \<Rightarrow> sys \<Rightarrow> sys" where
  "addToWatchlist env movie s =
     (let isAlreadyInWatchlist = list_ex (\<lambda>m. id_M m = id_M movie) (watchlist (app s)) in
      if isAlreadyInWatchlist
      then set_app env (\<lambda>state. state) (show_toast (toast_plain already_in_watchlist) s)
      else set_app env (\<lambda>state. state\<lparr>watchlist := watchlist state @ [movie]\<rparr>)
             (show_toast (toast_success added_to_watchlist) s))"

definition removeFromWatchlist :: "env \<Rightarrow> int \<Rightarrow> sys \<Rightarrow> sys" where
  "removeFromWatchlist env movieId s =
     show_toast (toast_success (''Film retir'' @ e_acute @ '' de votre liste '' @ a_grave @ '' regarder!''))
       (set_app env (\<lambda>state. state\<lparr>watchlist := filter (\<lambda>m. id_M m \<noteq> movieId) (watchlist state)\<rparr>) s)"

definition isInWatchlist :: "int \<Rightarrow> sys \<Rightarrow> bool" where
  "isInWatchlist movieId s = list_ex (\<lambda>m. id_M m = movieId) (watchlist (app s))"

definition addToRecentlyViewed :: "env \<Rightarrow> Movie \<Rightarrow> sys \<Rightarrow> sys" where
  "addToRecentlyViewed env movie s =
     set_app env (\<lambda>state.
       let filtered = filter (\<lambda>m. id_M m \<noteq> id_M movie) (recentlyViewed state) in
       state\<lparr>recentlyViewed := take 50 (movie # filtered)\<rparr>) s"

definition addToSearchHistory :: "env \<Rightarrow> jsstring \<Rightarrow> sys \<Rightarrow> sys" where
  "addToSearchHistory env query s =
     (if trim query \<noteq> []
      then set_app env (\<lambda>state.
             let filtered = filter (\<lambda>q. q \<noteq> query) (searchHistory state) in
             state\<lparr>searchHistory := take 20 (query # filtered)\<rparr>) s
      else s)"

text \<open>
  The sequence the specification describes for the two capped histories: the
  entries by recency, each key once, at its most recent position. The head of the
  argument is the most recent entry.
\<close>

fun most_recent_first :: "('a \<Rightarrow> 'k) \<Rightarrow> 'a list \<Rightarrow> 'a list" where
  "most_recent_first key [] = []"
| "most_recent_first key (x # xs) = x # most_recent_first key (filter (\<lambda>y. key y \<noteq> key x) xs)"

section \<open>The gateway (\<^verbatim>\<open>ApiService\<close>)\<close>

subsection \<open>Token storage\<close>

definition getToken :: "world \<Rightarrow> string option" where
  "getToken w = (if window w then getItem ''access_token'' w else None)"

definition getRefreshToken :: "world \<Rightarrow> string option" where
  "getRefreshToken w = (if window w then getItem ''refresh_token'' w else None)"

definition setTokens :: "AuthTokens \<Rightarrow> world \<Rightarrow> world" where
  "setTokens tokens' w =
     (if window w
      then setItem ''refresh_token'' (refresh tokens') (setItem ''access_token'' (access tokens') w)
      else w)"

definition clearTokens :: "world \<Rightarrow> world" where
  "clearTokens w =
     (if window w
      then removeItem ''user'' (removeItem ''refresh_token'' (removeItem ''access_token'' w))
      else w)"

definition ApiService_logout :: "world \<Rightarrow> world" where
  "ApiService_logout w = clearTokens w"

subsection \<open>Error normalisation\<close>

text \<open>\<^verbatim>\<open>data?.error\<close> and \<^verbatim>\<open>data?.message\<close> of a response body.\<close>

definition body_error :: "body \<Rightarrow> string option" where
  "body_error d = (case d of error_body e m \<Rightarrow> e | _ \<Rightarrow> None)"

definition body_message :: "body \<Rightarrow> string option" where
  "body_message d = (case d of error_body e m \<Rightarrow> m | _ \<Rightarrow> None)"

text \<open>\<^verbatim>\<open>a || b\<close> where \<open>a\<close> may be undefined.\<close>

definition or_default :: "string option \<Rightarrow> string \<Rightarrow> string" where
  "or_default a b = (case a of None \<Rightarrow> b | Some s \<Rightarrow> or_else s b)"

text \<open>
  \<^verbatim>\<open>handleError\<close> tests \<^verbatim>\<open>error.response\<close>, then \<^verbatim>\<open>error.request\<close>, then
  reads \<^verbatim>\<open>error.message\<close>. An \<^verbatim>\<open>ApiError\<close> object has none of the three.
\<close>

fun handleError :: "err \<Rightarrow> ApiError" where
  "handleError (AxiosError_response st d config) =
     \<lparr>error = or_default (body_error d) (or_default (body_message d) ''An error occurred''),
      status = st\<rparr>"
| "handleError (AxiosError_request config) =
     \<lparr>error = ''Network error. Please check your connection.'', status = 0\<rparr>"
| "handleError (Error message) =
     \<lparr>error = or_else message ''An unexpected error occurred'', status = 0\<rparr>"
| "handleError (Thrown e) =
     \<lparr>error = ''An unexpected error occurred'', status = 0\<rparr>"

subsection \<open>Reading a success body\<close>

text \<open>
  The callers read \<^verbatim>\<open>response.data\<close> without checking its shape.
  \<open>body_user d\<close> is \<^verbatim>\<open>d.user\<close>: undefined (\<open>None\<close>) for a body without that
  field. Of a token pair the code reads the fields \<^verbatim>\<open>access\<close> and
  \<^verbatim>\<open>refresh\<close>, as text (\<^verbatim>\<open>localStorage.setItem\<close> takes the string of its
  argument); \<open>body_tokens d\<close> holds these two texts, and the text of a field that
  the body does not have is \<^verbatim>\<open>undefined\<close>.
\<close>

definition body_user :: "body \<Rightarrow> User option" where
  "body_user d = (case d of profile_body u \<Rightarrow> Some u | _ \<Rightarrow> None)"

definition body_tokens :: "body \<Rightarrow> AuthTokens" where
  "body_tokens d =
     (case d of tokens_body t \<Rightarrow> t | _ \<Rightarrow> \<lparr>access = ''undefined'', refresh = ''undefined''\<rparr>)"

subsection \<open>The axios instance and its interceptors\<close>

definition new_request :: "http_verb \<Rightarrow> string \<Rightarrow> payload \<Rightarrow> request" where
  "new_request verb path d =
     \<lparr>http_method = verb, url = path, data = d, Authorization = None, retry = False\<rparr>"

text \<open>The request interceptor attaches the stored access token, when there is one.\<close>

definition request_interceptor :: "world \<Rightarrow> request \<Rightarrow> request" where
  "request_interceptor w config =
     (case truthy_value (getToken w) of
        Some token \<Rightarrow> config\<lparr>Authorization := Some (''Bearer '' @ token)\<rparr>
      | None \<Rightarrow> config)"

text \<open>The transport: the backend answers the \<open>n\<close>-th request dispatched.\<close>

definition dispatched :: "world \<Rightarrow> request \<Rightarrow> world" where
  "dispatched w config = w\<lparr>clock := Suc (clock w), sent := sent w @ [config]\<rparr>"

definition dispatch :: "env \<Rightarrow> request \<Rightarrow> world \<Rightarrow> reply \<times> world" where
  "dispatch env config w = (server env (clock w) config, dispatched w config)"

text \<open>
  axios resolves a response with a status from 200 to 299 to its body
  (\<^verbatim>\<open>response.data\<close> is all the callers read) and rejects any other, and a
  request without a response, with an error that carries the request configuration.
\<close>

definition validateStatus :: "int \<Rightarrow> bool" where
  "validateStatus st = (200 \<le> st \<and> st < 300)"

definition settle :: "request \<Rightarrow> reply \<Rightarrow> err + body" where
  "settle config r =
     (case r of
        Response st d \<Rightarrow> if validateStatus st then Inr d else Inl (AxiosError_response st d config)
      | NoResponse \<Rightarrow> Inl (AxiosError_request config))"

text \<open>
  \<open>api\<close> is a call of the axios instance: request interceptor, transport, response
  interceptor. \<open>response_rejected\<close> is the second handler of the response
  interceptor and \<open>ApiService_refreshToken\<close> the method it awaits. The refresh
  request goes through the same instance, so the three are mutually recursive and
  may go on for ever; the first argument bounds the nesting of instance calls, and
  \<open>None\<close> says that the bound was reached. \<^verbatim>\<open>refreshToken\<close> stores and returns
  the success body of its request as it reads it.
\<close>

fun api :: "nat \<Rightarrow> env \<Rightarrow> request \<Rightarrow> world \<Rightarrow> ((err + body) \<times> world) option"
  and response_rejected :: "nat \<Rightarrow> env \<Rightarrow> err \<Rightarrow> world \<Rightarrow> ((err + body) \<times> world) option"
  and ApiService_refreshToken :: "nat \<Rightarrow> env \<Rightarrow> world \<Rightarrow> ((ApiError + AuthTokens) \<times> world) option"
where
  "api 0 env config w = None"
| "api (Suc n) env config w =
     (let config' = request_interceptor w config;
          (r, w') = dispatch env config' w
      in case settle config' r of
           Inr d \<Rightarrow> Some (Inr d, w')
         | Inl e \<Rightarrow> response_rejected n env e w')"
| "response_rejected n env e w =
     (case e of
        AxiosError_response st d config \<Rightarrow>
          if st = 401 \<and> \<not> retry config then
            (let originalRequest = config\<lparr>retry := True\<rparr> in
             case ApiService_refreshToken n env w of
               None \<Rightarrow> None
             | Some (Inr tokens', w1) \<Rightarrow>
                 api n env
                   (case truthy_value (getToken w1) of
                      Some token \<Rightarrow> originalRequest\<lparr>Authorization := Some (''Bearer '' @ token)\<rparr>
                    | None \<Rightarrow> originalRequest) w1
             | Some (Inl refreshError, w1) \<Rightarrow>
                 (let w2 = ApiService_logout w1 in
                  if window w2 then Some (Inl (Thrown refreshError), w2\<lparr>href := ''/login''\<rparr>)
                  else Some (Inl (Error ''window is not defined''), w2)))
          else Some (Inl e, w)
      | _ \<Rightarrow> Some (Inl e, w))"
| "ApiService_refreshToken n env w =
     (case truthy_value (getRefreshToken w) of
        None \<Rightarrow> Some (Inl (handleError (Error ''No refresh token available'')), w)
      | Some refreshToken' \<Rightarrow>
          (case api n env (new_request POST ''/token/refresh/'' (refresh_data refreshToken')) w of
             None \<Rightarrow> None
           | Some (Inl e, w1) \<Rightarrow> Some (Inl (handleError e), w1)
           | Some (Inr d, w1) \<Rightarrow>
               (let tokens' = body_tokens d in Some (Inr tokens', setTokens tokens' w1))))"

lemmas gateway_simps = api.simps response_rejected.simps ApiService_refreshToken.simps

declare gateway_simps [simp del]

text \<open>
  \<open>sent_since w w' paths\<close>: from \<open>w\<close> to \<open>w'\<close> the requests dispatched were added
  at the end of the log, and each of them went to one of \<open>paths\<close>.
\<close>

definition sent_since :: "world \<Rightarrow> world \<Rightarrow> string set \<Rightarrow> bool" where
  "sent_since w w' paths = (\<exists>xs. sent w' = sent w @ xs \<and> url ` set xs \<subseteq> paths)"

fun err_url :: "err \<Rightarrow> string set" where
  "err_url (AxiosError_response st d config) = {url config}"
| "err_url e = {}"

subsection \<open>Endpoint methods\<close>

text \<open>
  Every method awaits the instance inside \<^verbatim>\<open>try\<close> and throws
  \<^verbatim>\<open>handleError(error)\<close> from its \<^verbatim>\<open>catch\<close>. The cached favorites are typed
  entries: a success body of another shape, which the source hands on unchecked, ends
  \<open>ApiService_getFavorites\<close> and \<open>ApiService_addToFavorites\<close> with a normalised
  error. \<^verbatim>\<open>login\<close> stores the token
  pair of the first body, reads the \<^verbatim>\<open>user\<close> field of the second and stores
  \<^verbatim>\<open>JSON.stringify(user)\<close>, which is undefined for an undefined user and is then
  stored as the text \<^verbatim>\<open>undefined\<close>; it returns the user, defined or not, with
  the pair.
\<close>

definition ApiService_login ::
  "nat \<Rightarrow> env \<Rightarrow> LoginCredentials \<Rightarrow> world
     \<Rightarrow> ((ApiError + User option \<times> AuthTokens) \<times> world) option" where
  "ApiService_login n env credentials w =
     (case api n env (new_request POST ''/token/'' (login_data credentials)) w of
        None \<Rightarrow> None
      | Some (Inl e, w1) \<Rightarrow> Some (Inl (handleError e), w1)
      | Some (Inr d, w1) \<Rightarrow>
          (let tokens' = body_tokens d;
               w2 = setTokens tokens' w1
           in case api n env (new_request GET ''/profile/'' no_data) w2 of
                None \<Rightarrow> None
              | Some (Inl e, w3) \<Rightarrow> Some (Inl (handleError e), w3)
              | Some (Inr d', w3) \<Rightarrow>
                  (let user' = body_user d' in
                   Some (Inr (user', tokens'),
                         if window w3
                         then setItem ''user''
                                (case user' of Some u \<Rightarrow> JSON_stringify env u | None \<Rightarrow> ''undefined'') w3
                         else w3))))"

definition ApiService_register ::
  "nat \<Rightarrow> env \<Rightarrow> RegisterCredentials \<Rightarrow> world \<Rightarrow> ((ApiError + body) \<times> world) option" where
  "ApiService_register n env credentials w =
     (case api n env (new_request POST ''/register/'' (register_data credentials)) w of
        None \<Rightarrow> None
      | Some (Inl e, w1) \<Rightarrow> Some (Inl (handleError e), w1)
      | Some (Inr d, w1) \<Rightarrow> Some (Inr d, w1))"

definition ApiService_getFavorites ::
  "nat \<Rightarrow> env \<Rightarrow> world \<Rightarrow> ((ApiError + FavoriteMovie list) \<times> world) option" where
  "ApiService_getFavorites n env w =
     (case api n env (new_request GET ''/favorites/'' no_data) w of
        None \<Rightarrow> None
      | Some (Inl e, w1) \<Rightarrow> Some (Inl (handleError e), w1)
      | Some (Inr d, w1) \<Rightarrow>
          (case d of
             favorites_body fs \<Rightarrow> Some (Inr fs, w1)
           | _ \<Rightarrow> Some (Inl (handleError (Error ''TypeError'')), w1)))"

definition ApiService_addToFavorites ::
  "nat \<Rightarrow> env \<Rightarrow> Movie \<Rightarrow> world \<Rightarrow> ((ApiError + FavoriteMovie) \<times> world) option" where
  "ApiService_addToFavorites n env movie w =
     (let favoriteData =
            favorite_data (id_M movie) (title movie) (poster_path movie) (release_date movie) in
      case api n env (new_request POST ''/favorites/'' favoriteData) w of
        None \<Rightarrow> None
      | Some (Inl e, w1) \<Rightarrow> Some (Inl (handleError e), w1)
      | Some (Inr d, w1) \<Rightarrow>
          (case d of
             favorite_body f \<Rightarrow> Some (Inr f, w1)
           | _ \<Rightarrow> Some (Inl (handleError (Error ''TypeError'')), w1)))"

text \<open>The decimal text of an integer key inside a template string.\<close>

fun decimal_nat :: "nat \<Rightarrow> string" where
  "decimal_nat n =
     (if n < 10 then [char_of (48 + n)]
      else decimal_nat (n div 10) @ [char_of (48 + n mod 10)])"

declare decimal_nat.simps [simp del]

definition decimal :: "int \<Rightarrow> string" where
  "decimal i = (if i < 0 then CHR ''-'' # decimal_nat (nat (- i)) else decimal_nat (nat i))"

definition ApiService_removeFromFavorites ::
  "nat \<Rightarrow> env \<Rightarrow> int \<Rightarrow> world \<Rightarrow> ((ApiError + unit) \<times> world) option" where
  "ApiService_removeFromFavorites n env favoriteId w =
     (case api n env (new_request DELETE (''/favorites/'' @ decimal favoriteId @ ''/'') no_data) w of
        None \<Rightarrow> None
      | Some (Inl e, w1) \<Rightarrow> Some (Inl (handleError e), w1)
      | Some (Inr d, w1) \<Rightarrow> Some (Inr (), w1))"

section \<open>The session store (\<^verbatim>\<open>useAuthStore\<close>)\<close>

text \<open>
  An asynchronous action returns \<open>None\<close> when its gateway call does not return,
  and otherwise the error it throws or \<open>()\<close>, with the state it leaves.

  \<^verbatim>\<open>login\<close> has one \<^verbatim>\<open>try\<close> around the gateway call, the \<^verbatim>\<open>set\<close> of the
  session and the welcome toast. The toast reads \<^verbatim>\<open>user.username\<close>, which throws
  a \<^verbatim>\<open>TypeError\<close> for an undefined user, after the session has been set. The
  \<^verbatim>\<open>catch\<close> clears the loading flag, shows \<^verbatim>\<open>error.error\<close> or the default
  message, and throws what it caught; only an \<^verbatim>\<open>ApiError\<close> has the field
  \<^verbatim>\<open>error\<close>.
\<close>

definition TypeError :: err where
  "TypeError = Error ''Cannot read properties of undefined''"

definition thrown_error :: "err \<Rightarrow> string option" where
  "thrown_error e = (case e of Thrown x \<Rightarrow> Some (error x) | _ \<Rightarrow> None)"

definition login_catch :: "env \<Rightarrow> err \<Rightarrow> sys \<Rightarrow> ((err + unit) \<times> sys) option" where
  "login_catch env e s =
     Some (Inl e,
       show_toast (toast_error (or_default (thrown_error e) ''Erreur de connexion''))
         (set_auth env (\<lambda>state. state\<lparr>isLoading := False\<rparr>) s))"

definition login ::
  "nat \<Rightarrow> env \<Rightarrow> LoginCredentials \<Rightarrow> sys \<Rightarrow> ((err + unit) \<times> sys) option" where
  "login n env credentials s =
     (let s1 = set_auth env (\<lambda>state. state\<lparr>isLoading := True\<rparr>) s in
      case ApiService_login n env credentials (world s1) of
        None \<Rightarrow> None
      | Some (Inr (user', tokens'), w) \<Rightarrow>
          (let s2 = set_auth env
                      (\<lambda>state. state\<lparr>user := user', tokens := Some tokens',
                                      isAuthenticated := True, isLoading := False\<rparr>)
                      (s1\<lparr>world := w\<rparr>)
           in case user' of
                Some u \<Rightarrow>
                  Some (Inr (), show_toast (toast_success (''Bienvenue '' @ username u @ ''!'')) s2)
              | None \<Rightarrow> login_catch env TypeError s2)
      | Some (Inl e, w) \<Rightarrow> login_catch env (Thrown e) (s1\<lparr>world := w\<rparr>))"

definition register_success :: string where
  "register_success =
     ''Compte cr'' @ e_acute @ e_acute @ '' avec succ'' @ e_grave
       @ ''s! Vous pouvez maintenant vous connecter.''"

definition register_failure :: string where
  "register_failure = ''Erreur lors de la cr'' @ e_acute @ ''ation du compte''"

definition register ::
  "nat \<Rightarrow> env \<Rightarrow> RegisterCredentials \<Rightarrow> sys \<Rightarrow> ((ApiError + unit) \<times> sys) option" where
  "register n env credentials s =
     (let s1 = set_auth env (\<lambda>state. state\<lparr>isLoading := True\<rparr>) s in
      case ApiService_register n env credentials (world s1) of
        None \<Rightarrow> None
      | Some (Inr d, w) \<Rightarrow>
          Some (Inr (),
            show_toast (toast_success register_success)
              (set_auth env (\<lambda>state. state\<lparr>isLoading := False\<rparr>) (s1\<lparr>world := w\<rparr>)))
      | Some (Inl e, w) \<Rightarrow>
          Some (Inl e,
            show_toast (toast_error (or_else (error e) register_failure))
              (set_auth env (\<lambda>state. state\<lparr>isLoading := False\<rparr>) (s1\<lparr>world := w\<rparr>))))"

definition logout :: "env \<Rightarrow> sys \<Rightarrow> sys" where
  "logout env s =
     show_toast (toast_success (''D'' @ e_acute @ ''connexion r'' @ e_acute @ ''ussie''))
       (set_auth env (\<lambda>state. state\<lparr>user := None, tokens := None, isAuthenticated := False\<rparr>)
          (s\<lparr>world := ApiService_logout (world s)\<rparr>))"

definition refreshToken :: "nat \<Rightarrow> env \<Rightarrow> sys \<Rightarrow> sys option" where
  "refreshToken n env s =
     (case ApiService_refreshToken n env (world s) of
        None \<Rightarrow> None
      | Some (Inr tokens', w) \<Rightarrow>
          Some (set_auth env (\<lambda>state. state\<lparr>tokens := Some tokens'\<rparr>) (s\<lparr>world := w\<rparr>))
      | Some (Inl e, w) \<Rightarrow> Some (logout env (s\<lparr>world := w\<rparr>)))"

text \<open>
  \<^verbatim>\<open>checkAuth\<close> is synchronous. The only statement of it that throws is
  \<^verbatim>\<open>JSON.parse\<close>, inside \<^verbatim>\<open>try\<close>; the result is \<open>Inr\<close> of the state it
  leaves, or \<open>Inl\<close> of an exception that escapes.
\<close>

definition checkAuth :: "env \<Rightarrow> sys \<Rightarrow> err + sys" where
  "checkAuth env s =
     (let token = (if window (world s) then getItem ''access_token'' (world s) else None);
          userStr = (if window (world s) then getItem ''user'' (world s) else None)
      in case (truthy_value token, truthy_value userStr) of
           (Some token', Some userStr') \<Rightarrow>
             (case JSON_parse env userStr' of
                SyntaxError \<Rightarrow> Inr (logout env s)
              | json_null \<Rightarrow>
                  Inr (set_auth env
                    (\<lambda>state. state\<lparr>user := None,
                       tokens := Some \<lparr>access = token',
                                       refresh = or_default (getItem ''refresh_token'' (world s)) []\<rparr>,
                       isAuthenticated := True\<rparr>) s)
              | json_value user' \<Rightarrow>
                  Inr (set_auth env
                    (\<lambda>state. state\<lparr>user := Some user',
                       tokens := Some \<lparr>access = token',
                                       refresh = or_default (getItem ''refresh_token'' (world s)) []\<rparr>,
                       isAuthenticated := True\<rparr>) s))
         | _ \<Rightarrow> Inr s)"

section \<open>The collection store: server-synchronised favorites\<close>

definition loadFavorites :: "nat \<Rightarrow> env \<Rightarrow> sys \<Rightarrow> sys option" where
  "loadFavorites n env s =
     (let s1 = set_app env (\<lambda>state. state\<lparr>isLoading_app := True\<rparr>) s in
      case ApiService_getFavorites n env (world s1) of
        None \<Rightarrow> None
      | Some (Inr favorites', w) \<Rightarrow>
          Some (set_app env (\<lambda>state. state\<lparr>favorites := favorites', isLoading_app := False\<rparr>)
                  (s1\<lparr>world := w\<rparr>))
      | Some (Inl e, w) \<Rightarrow>
          Some (set_app env (\<lambda>state. state\<lparr>isLoading_app := False\<rparr>) (s1\<lparr>world := w\<rparr>)))"

definition addToFavorites_failure :: string where
  "addToFavorites_failure = ''Erreur lors de l'' @ [CHR 0x27] @ ''ajout aux favoris''"

definition addToFavorites ::
  "nat \<Rightarrow> env \<Rightarrow> Movie \<Rightarrow> sys \<Rightarrow> ((ApiError + unit) \<times> sys) option" where
  "addToFavorites n env movie s =
     (case ApiService_addToFavorites n env movie (world s) of
        None \<Rightarrow> None
      | Some (Inr favorite, w) \<Rightarrow>
          Some (Inr (),
            show_toast (toast_success (''Film ajout'' @ e_acute @ '' aux favoris!''))
              (set_app env (\<lambda>state. state\<lparr>favorites := favorites state @ [favorite]\<rparr>)
                 (s\<lparr>world := w\<rparr>)))
      | Some (Inl e, w) \<Rightarrow>
          Some (Inl e, show_toast (toast_error (or_else (error e) addToFavorites_failure)) (s\<lparr>world := w\<rparr>)))"

definition removeFromFavorites_failure :: string where
  "removeFromFavorites_failure = ''Erreur lors de la suppression des favoris''"

definition removeFromFavorites ::
  "nat \<Rightarrow> env \<Rightarrow> int \<Rightarrow> sys \<Rightarrow> ((ApiError + unit) \<times> sys) option" where
  "removeFromFavorites n env movieId s =
     (let currentFavorites = favorites (app s) in
      case find (\<lambda>f. movie_id f = movieId) currentFavorites of
        None \<Rightarrow> Some (Inr (), s)
      | Some favorite \<Rightarrow>
          (case ApiService_removeFromFavorites n env (id_F favorite) (world s) of
             None \<Rightarrow> None
           | Some (Inr u, w) \<Rightarrow>
               Some (Inr (),
                 show_toast (toast_success (''Film retir'' @ e_acute @ '' des favoris!''))
                   (set_app env
                      (\<lambda>state. state\<lparr>favorites := filter (\<lambda>f. movie_id f \<noteq> movieId) (favorites state)\<rparr>)
                      (s\<lparr>world := w\<rparr>)))
           | Some (Inl e, w) \<Rightarrow>
               Some (Inl e,
                 show_toast (toast_error (or_else (error e) removeFromFavorites_failure))
                   (s\<lparr>world := w\<rparr>))))"

definition clearRecentlyViewed :: "env \<Rightarrow> sys \<Rightarrow> sys" where
  "clearRecentlyViewed env s =
     show_toast (toast_success (''Historique des films consult'' @ e_acute @ ''s effac'' @ e_acute))
       (set_app env (\<lambda>state. state\<lparr>recentlyViewed := []\<rparr>) s)"

definition clearSearchHistory :: "env \<Rightarrow> sys \<Rightarrow> sys" where
  "clearSearchHistory env s =
     show_toast (toast_success (''Historique de recherche effac'' @ e_acute))
       (set_app env (\<lambda>state. state\<lparr>searchHistory := []\<rparr>) s)"

definition clearAll :: "env \<Rightarrow> sys \<Rightarrow> sys" where
  "clearAll env s =
     show_toast
       (toast_success (''Toutes les donn'' @ e_acute @ ''es locales ont '' @ e_acute @ ''t''
          @ e_acute @ '' effac'' @ e_acute @ ''es''))
       (set_app env
          (\<lambda>state. state\<lparr>favorites := [], watchlist := [], recentlyViewed := [], searchHistory := []\<rparr>) s)"

section \<open>Runs of store actions\<close>

text \<open>
  The actions a page can call on the two stores, and a run of them one after the
  other. An asynchronous action that throws still leaves a state, from which the
  run goes on; an action that does not return ends the run with \<open>None\<close>.
\<close>

datatype action =
    act_login nat LoginCredentials
  | act_register nat RegisterCredentials
  | act_logout
  | act_refreshToken nat
  | act_checkAuth
  | act_loadFavorites nat
  | act_addToFavorites nat Movie
  | act_removeFromFavorites nat int
  | act_addToWatchlist Movie
  | act_removeFromWatchlist int
  | act_addToRecentlyViewed Movie
  | act_clearRecentlyViewed
  | act_addToSearchHistory jsstring
  | act_clearSearchHistory
  | act_clearAll

fun perform :: "env \<Rightarrow> action \<Rightarrow> sys \<Rightarrow> sys option" where
  "perform env (act_login n credentials) s = map_option snd (login n env credentials s)"
| "perform env (act_register n credentials) s = map_option snd (register n env credentials s)"
| "perform env act_logout s = Some (logout env s)"
| "perform env (act_refreshToken n) s = refreshToken n env s"
| "perform env act_checkAuth s = (case checkAuth env s of Inr s' \<Rightarrow> Some s' | Inl e \<Rightarrow> None)"
| "perform env (act_loadFavorites n) s = loadFavorites n env s"
| "perform env (act_addToFavorites n movie) s = map_option snd (addToFavorites n env movie s)"
| "perform env (act_removeFromFavorites n movieId) s = map_option snd (removeFromFavorites n env movieId s)"
| "perform env (act_addToWatchlist movie) s = Some (addToWatchlist env movie s)"
| "perform env (act_removeFromWatchlist movieId) s = Some (removeFromWatchlist env movieId s)"
| "perform env (act_addToRecentlyViewed movie) s = Some (addToRecentlyViewed env movie s)"
| "perform env act_clearRecentlyViewed s = Some (clearRecentlyViewed env s)"
| "perform env (act_addToSearchHistory query) s = Some (addToSearchHistory env query s)"
| "perform env act_clearSearchHistory s = Some (clearSearchHistory env s)"
| "perform env act_clearAll s = Some (clearAll env s)"

fun run :: "env \<Rightarrow> action list \<Rightarrow> sys \<Rightarrow> sys option" where
  "run env [] s = Some s"
| "run env (a # as) s = (case perform env a s of None \<Rightarrow> None | Some s' \<Rightarrow> run env as s')"












section \<open>Example inputs\<close>

text \<open>
  The initial state of both stores as \<^verbatim>\<open>create\<close> receives it, a browser with an
  empty \<^verbatim>\<open>localStorage\<close>, and small concrete inputs on which the theorems
  below are instantiated.
\<close>

definition initial_auth :: AuthState where
  "initial_auth = \<lparr>user = None, tokens = None, isAuthenticated = False, isLoading = False\<rparr>"

definition initial_app :: AppState where
  "initial_app =
     \<lparr>favorites = [], watchlist = [], recentlyViewed = [], searchHistory = [],
      isLoading_app = False\<rparr>"

definition browser :: world where
  "browser =
     \<lparr>window = True, localStorage = Map.empty, href = ''/'', clock = 0, sent = [], toasts = []\<rparr>"

definition initial_sys :: sys where
  "initial_sys = \<lparr>world = browser, auth = initial_auth, app = initial_app\<rparr>"

definition offline_env :: env where
  "offline_env =
     \<lparr>server = (\<lambda>n r. NoResponse), JSON_parse_user = (\<lambda>s. None),
      JSON_members = username, serialize_auth = (\<lambda>p. ''auth''),
      serialize_app = (\<lambda>p. ''app'')\<rparr>"

definition movie_a :: Movie where
  "movie_a = \<lparr>id_M = 42, title = ''A'', poster_path = None, release_date = ''2020-01-01''\<rparr>"

definition movie_b :: Movie where
  "movie_b = \<lparr>id_M = 7, title = ''B'', poster_path = Some ''/b.jpg'', release_date = ''2021-05-05''\<rparr>"

definition query_a :: jsstring where "query_a = [0x62, 0x61, 0x74, 0x6D, 0x61, 0x6E]"

definition query_b :: jsstring where "query_b = [0x20, 0x64, 0x75, 0x6E, 0x65]"

definition query_blank :: jsstring where "query_blank = [0x20, 0x9, 0x3000]"

definition alice :: User where
  "alice = \<lparr>id_U = 1, username = ''alice'', email = ''alice@example.org'',
            first_name = ''Alice'', last_name = ''A''\<rparr>"

definition alice_credentials :: LoginCredentials where
  "alice_credentials = \<lparr>username_L = ''alice'', password_L = ''pw''\<rparr>"

definition tokens_1 :: AuthTokens where
  "tokens_1 = \<lparr>access = ''a1'', refresh = ''r1''\<rparr>"

definition tokens_2 :: AuthTokens where
  "tokens_2 = \<lparr>access = ''a2'', refresh = ''r2''\<rparr>"

definition favorite_a :: FavoriteMovie where
  "favorite_a =
     \<lparr>id_F = 5, movie_id = 42, title_F = ''A'', poster_path_F = None,
      release_date_F = ''2020-01-01'', added_at = ''2024-01-01''\<rparr>"

text \<open>A backend that answers the \<open>n\<close>-th request with the \<open>n\<close>-th reply of a list, and then is unreachable.\<close>

definition scripted :: "reply list \<Rightarrow> nat \<Rightarrow> request \<Rightarrow> reply" where
  "scripted rs n r = (if n < length rs then rs ! n else NoResponse)"

definition example_serialize_auth :: "auth_persisted \<Rightarrow> string" where
  "example_serialize_auth p =
     (if p_isAuthenticated p then ''T'' else ''F'')
       @ (case p_user p of None \<Rightarrow> ''-'' | Some u \<Rightarrow> username u)
       @ (case p_tokens p of None \<Rightarrow> ''-'' | Some t \<Rightarrow> access t @ refresh t)"

definition example_env :: "reply list \<Rightarrow> env" where
  "example_env rs =
     \<lparr>server = scripted rs,
      JSON_parse_user = (\<lambda>v. if v = ''{alice}'' then Some alice else None),
      JSON_members = username,
      serialize_auth = example_serialize_auth,
      serialize_app = (\<lambda>p. ''app'')\<rparr>"

text \<open>A browser that holds a session, and a backend that rejects the access token once.\<close>

definition signed_in_browser :: world where
  "signed_in_browser =
     browser\<lparr>localStorage := [''access_token'' \<mapsto> ''a1'', ''refresh_token'' \<mapsto> ''r1'', ''user'' \<mapsto> ''{alice}'']\<rparr>"

definition get_favorites :: request where
  "get_favorites = new_request GET ''/favorites/'' no_data"

definition refresh_script :: "reply list" where
  "refresh_script =
     [Response 401 empty_body, Response 200 (tokens_body tokens_2),
      Response 200 (favorites_body [favorite_a])]"

definition refreshed_browser :: world where
  "refreshed_browser =
     setTokens tokens_2
       (dispatched (dispatched signed_in_browser (request_interceptor signed_in_browser get_favorites))
          ((new_request POST ''/token/refresh/'' (refresh_data ''r1''))\<lparr>Authorization := Some ''Bearer a1''\<rparr>))"

text \<open>
  A session that expires: login succeeds, then the backend rejects the access token
  of the next request and is unreachable for the refresh.
\<close>

definition session_expired_script :: "reply list" where
  "session_expired_script =
     [Response 200 (tokens_body tokens_1), Response 200 (profile_body alice),
      Response 401 empty_body, NoResponse]"

definition session_expired_run :: "sys option" where
  "session_expired_run =
     run (example_env session_expired_script)
       [act_login 2 alice_credentials, act_loadFavorites 2] initial_sys"









text \<open>A backend that answers every request, the refresh request too, with 401.\<close>

definition unauthorized_env :: env where
  "unauthorized_env = (example_env [])\<lparr>server := (\<lambda>n r. Response 401 empty_body)\<rparr>"










section \<open>Properties of the capped histories and the watchlist\<close>

lemma most_recent_first_filter:
  "most_recent_first key (filter (\<lambda>y. key y \<noteq> k) xs) = filter (\<lambda>y. key y \<noteq> k) (most_recent_first key xs)"
proof (induction key xs rule: most_recent_first.induct)
  case (1 key)
  then show ?case by simp
next
  case (2 key x xs)
  have comm: "filter (\<lambda>y. key y \<noteq> key x) (filter (\<lambda>y. key y \<noteq> k) xs)
      = filter (\<lambda>y. key y \<noteq> k) (filter (\<lambda>y. key y \<noteq> key x) xs)"
    by (simp add: conj_commute)
  show ?case
  proof (cases "key x = k")
    case True
    have "filter (\<lambda>y. key y \<noteq> k) (filter (\<lambda>y. key y \<noteq> k) xs) = filter (\<lambda>y. key y \<noteq> k) xs"
      by simp
    with True 2 show ?thesis by simp
  next
    case False
    with 2 comm show ?thesis by simp
  qed
qed

lemma set_most_recent_first: "set (most_recent_first key xs) \<subseteq> set xs"
  by (induction key xs rule: most_recent_first.induct) auto

lemma distinct_most_recent_first: "distinct (map key (most_recent_first key xs))"
proof (induction key xs rule: most_recent_first.induct)
  case (1 key)
  then show ?case by simp
next
  case (2 key x xs)
  have "key x \<notin> key ` set (most_recent_first key (filter (\<lambda>y. key y \<noteq> key x) xs))"
    using set_most_recent_first [of key "filter (\<lambda>y. key y \<noteq> key x) xs"] by auto
  with 2 show ?case by simp
qed

lemma most_recent_first_distinct: "distinct (map key xs) \<Longrightarrow> most_recent_first key xs = xs"
proof (induction xs)
  case Nil
  then show ?case by simp
next
  case (Cons x xs)
  then have "filter (\<lambda>y. key y \<noteq> key x) xs = xs"
    by (auto simp: filter_id_conv image_iff)
  with Cons show ?case by simp
qed

lemma take_filter_take:
  "distinct (map key zs) \<Longrightarrow>
   take n (filter (\<lambda>y. key y \<noteq> k) (take (Suc n) zs)) = take n (filter (\<lambda>y. key y \<noteq> k) zs)"
proof (induction zs arbitrary: n)
  case Nil
  then show ?case by simp
next
  case (Cons z zs)
  show ?case
  proof (cases "key z = k")
    case True
    with Cons.prems have all: "\<forall>y \<in> set zs. key y \<noteq> k" by (auto simp: image_iff)
    then have "filter (\<lambda>y. key y \<noteq> k) zs = zs" by (simp add: filter_id_conv)
    moreover from all have "filter (\<lambda>y. key y \<noteq> k) (take n zs) = take n zs"
      by (auto simp: filter_id_conv dest: in_set_takeD)
    ultimately show ?thesis using True by simp
  next
    case False
    show ?thesis
    proof (cases n)
      case 0
      then show ?thesis by simp
    next
      case (Suc m)
      with Cons False show ?thesis by simp
    qed
  qed
qed

text \<open>One step of a capped, deduplicated, most-recent-first history.\<close>

lemma capped_step:
  "take (Suc n) (m # filter (\<lambda>y. key y \<noteq> key m) (take (Suc n) (most_recent_first key ys)))
     = take (Suc n) (most_recent_first key (m # ys))"
  by (simp add: most_recent_first_filter take_filter_take distinct_most_recent_first)

lemma capped_fold:
  "fold (\<lambda>m xs. take (Suc n) (m # filter (\<lambda>y. key y \<noteq> key m) xs)) ms (take (Suc n) (most_recent_first key ys))
     = take (Suc n) (most_recent_first key (rev ms @ ys))"
proof (induction ms arbitrary: ys)
  case Nil
  then show ?case by simp
next
  case (Cons m ms)
  show ?case using Cons [of "m # ys"] by (simp add: capped_step del: most_recent_first.simps take_Suc_Cons)
qed

lemma recentlyViewed_addToRecentlyViewed:
  "recentlyViewed (app (addToRecentlyViewed env m s))
     = take 50 (m # filter (\<lambda>x. id_M x \<noteq> id_M m) (recentlyViewed (app s)))"
  by (simp add: addToRecentlyViewed_def set_app_def Let_def)

lemma recentlyViewed_fold:
  "recentlyViewed (app (fold (addToRecentlyViewed env) ms s))
     = fold (\<lambda>m xs. take 50 (m # filter (\<lambda>x. id_M x \<noteq> id_M m) xs)) ms (recentlyViewed (app s))"
  by (induction ms arbitrary: s) (simp_all add: recentlyViewed_addToRecentlyViewed)

lemma capped_fold_valid:
  assumes "distinct (map key xs)" and "length xs \<le> Suc n"
  shows "fold (\<lambda>m xs. take (Suc n) (m # filter (\<lambda>y. key y \<noteq> key m) xs)) ms xs
     = take (Suc n) (most_recent_first key (rev ms @ xs))"
proof -
  from assms have "xs = take (Suc n) (most_recent_first key xs)"
    by (simp add: most_recent_first_distinct)
  then show ?thesis using capped_fold [of n key ms xs] by simp
qed

text \<open>
  Claim C6. Starting from a valid recently-viewed list (no movie id twice, at most 50
  entries), any sequence of \<^verbatim>\<open>addToRecentlyViewed\<close> calls leaves a list with no
  duplicate movie id and at most 50 entries, which is the most-recent-first sequence
  of the movies added and the ones there before, cut to 50; a single call puts the
  movie at the front of the previous list, from which the entries of its id are removed.
\<close>

theorem addToRecentlyViewed_sequence:
  assumes "distinct (map id_M (recentlyViewed (app s)))"
    and "length (recentlyViewed (app s)) \<le> 50"
  shows "distinct (map id_M (recentlyViewed (app (fold (addToRecentlyViewed env) ms s))))
    \<and> length (recentlyViewed (app (fold (addToRecentlyViewed env) ms s))) \<le> 50
    \<and> recentlyViewed (app (fold (addToRecentlyViewed env) ms s))
        = take 50 (most_recent_first id_M (rev ms @ recentlyViewed (app s)))
    \<and> recentlyViewed (app (addToRecentlyViewed env m s))
        = m # take 49 (filter (\<lambda>x. id_M x \<noteq> id_M m) (recentlyViewed (app s)))"
proof -
  have eq: "recentlyViewed (app (fold (addToRecentlyViewed env) ms s))
        = take 50 (most_recent_first id_M (rev ms @ recentlyViewed (app s)))"
    using capped_fold_valid [of id_M "recentlyViewed (app s)" 49 ms] assms
    by (simp add: recentlyViewed_fold)
  have "distinct (map id_M (take 50 (most_recent_first id_M (rev ms @ recentlyViewed (app s)))))"
    by (simp add: take_map [symmetric] distinct_most_recent_first)
  with eq show ?thesis by (simp add: recentlyViewed_addToRecentlyViewed)
qed

theorem addToRecentlyViewed_sequence_witness:
  "distinct (map id_M (recentlyViewed (app initial_sys)))
   \<and> length (recentlyViewed (app initial_sys)) \<le> 50
   \<and> recentlyViewed (app (fold (addToRecentlyViewed offline_env) [movie_a, movie_b, movie_a] initial_sys))
       = [movie_a, movie_b]"
  using addToRecentlyViewed_sequence [of initial_sys offline_env "[movie_a, movie_b, movie_a]" movie_a]
  by (simp add: initial_sys_def initial_app_def movie_a_def movie_b_def)

lemma searchHistory_addToSearchHistory:
  "searchHistory (app (addToSearchHistory env q s))
     = (if trim q \<noteq> [] then take 20 (q # filter (\<lambda>x. x \<noteq> q) (searchHistory (app s)))
        else searchHistory (app s))"
  by (simp add: addToSearchHistory_def set_app_def Let_def)

lemma searchHistory_fold:
  "searchHistory (app (fold (addToSearchHistory env) qs s))
     = fold (\<lambda>q xs. take 20 (q # filter (\<lambda>x. x \<noteq> q) xs)) (filter (\<lambda>q. trim q \<noteq> []) qs)
         (searchHistory (app s))"
  by (induction qs arbitrary: s) (simp_all add: searchHistory_addToSearchHistory)

lemma searchHistory_sequence:
  assumes "distinct (searchHistory (app s))" and "length (searchHistory (app s)) \<le> 20"
  shows "searchHistory (app (fold (addToSearchHistory env) qs s))
     = take 20 (most_recent_first (\<lambda>q. q) (rev (filter (\<lambda>q. trim q \<noteq> []) qs) @ searchHistory (app s)))"
  using capped_fold_valid [of "\<lambda>q. q" "searchHistory (app s)" 19 "filter (\<lambda>q. trim q \<noteq> []) qs"] assms
  by (simp add: searchHistory_fold)

text \<open>
  Claim C7. Starting from a valid search history (no string twice, at most 20 entries),
  any sequence of \<^verbatim>\<open>addToSearchHistory\<close> calls leaves a history with no duplicate
  and at most 20 entries; when every query of the sequence is non-blank the history is
  the most-recent-first sequence of the queries and the former entries, cut to 20; and
  a call with a blank (empty or whitespace-only) query changes nothing at all.
\<close>

theorem addToSearchHistory_sequence:
  assumes "distinct (searchHistory (app s))" and "length (searchHistory (app s)) \<le> 20"
  shows "distinct (searchHistory (app (fold (addToSearchHistory env) qs s)))
    \<and> length (searchHistory (app (fold (addToSearchHistory env) qs s))) \<le> 20
    \<and> ((\<forall>q \<in> set qs. trim q \<noteq> []) \<longrightarrow>
          searchHistory (app (fold (addToSearchHistory env) qs s))
            = take 20 (most_recent_first (\<lambda>q. q) (rev qs @ searchHistory (app s))))
    \<and> (trim query = [] \<longrightarrow> addToSearchHistory env query s = s)"
proof -
  let ?r = "take 20 (most_recent_first (\<lambda>q. q)
              (rev (filter (\<lambda>q. trim q \<noteq> []) qs) @ searchHistory (app s)))"
  have eq: "searchHistory (app (fold (addToSearchHistory env) qs s)) = ?r"
    using assms by (rule searchHistory_sequence)
  have "distinct (map (\<lambda>q. q) (most_recent_first (\<lambda>q. q)
          (rev (filter (\<lambda>q. trim q \<noteq> []) qs) @ searchHistory (app s))))"
    by (rule distinct_most_recent_first)
  then have d: "distinct ?r" by simp
  have all: "(\<forall>q \<in> set qs. trim q \<noteq> []) \<Longrightarrow> filter (\<lambda>q. trim q \<noteq> []) qs = qs"
    by (simp add: filter_id_conv)
  from eq d all show ?thesis by (auto simp: addToSearchHistory_def)
qed

theorem addToSearchHistory_sequence_witness:
  "distinct (searchHistory (app initial_sys))
   \<and> length (searchHistory (app initial_sys)) \<le> 20
   \<and> trim query_a \<noteq> [] \<and> trim query_b \<noteq> []
   \<and> searchHistory (app (fold (addToSearchHistory offline_env) [query_a, query_b, query_a] initial_sys))
       = [query_a, query_b]
   \<and> trim query_blank = []
   \<and> addToSearchHistory offline_env query_blank initial_sys = initial_sys"
  using addToSearchHistory_sequence
    [of initial_sys offline_env "[query_a, query_b, query_a]" query_blank]
  by (simp add: initial_sys_def initial_app_def query_a_def query_b_def query_blank_def
      trim_def is_whitespace_def)

lemma count_key_distinct:
  "distinct (map key xs) \<Longrightarrow> k \<in> key ` set xs \<Longrightarrow> length (filter (\<lambda>x. key x = k) xs) = 1"
proof (induction xs)
  case Nil
  then show ?case by simp
next
  case (Cons x xs)
  show ?case
  proof (cases "key x = k")
    case True
    with Cons.prems have "\<forall>y \<in> set xs. key y \<noteq> k" by (auto simp: image_iff)
    then have "filter (\<lambda>x. key x = k) xs = []" by (simp add: filter_empty_conv)
    with True show ?thesis by simp
  next
    case False
    with Cons show ?thesis by auto
  qed
qed

lemma addToWatchlist_present:
  "list_ex (\<lambda>m. id_M m = id_M movie) (watchlist (app s)) \<Longrightarrow>
   app (addToWatchlist env movie s) = app s
   \<and> toasts (world (addToWatchlist env movie s)) = toasts (world s) @ [toast_plain already_in_watchlist]"
  by (simp add: addToWatchlist_def set_app_def show_toast_def setItem_def Let_def)

lemma addToWatchlist_absent:
  "\<not> list_ex (\<lambda>m. id_M m = id_M movie) (watchlist (app s)) \<Longrightarrow>
   watchlist (app (addToWatchlist env movie s)) = watchlist (app s) @ [movie]
   \<and> toasts (world (addToWatchlist env movie s)) = toasts (world s) @ [toast_success added_to_watchlist]"
  by (simp add: addToWatchlist_def set_app_def show_toast_def setItem_def Let_def)

lemma addToWatchlist_contains:
  "list_ex (\<lambda>m. id_M m = id_M movie) (watchlist (app (addToWatchlist env movie s)))"
  by (cases "list_ex (\<lambda>m. id_M m = id_M movie) (watchlist (app s))")
     (simp_all add: addToWatchlist_present addToWatchlist_absent)

lemma addToWatchlist_distinct:
  "distinct (map id_M (watchlist (app s))) \<Longrightarrow>
   distinct (map id_M (watchlist (app (addToWatchlist env movie s))))"
  by (cases "list_ex (\<lambda>m. id_M m = id_M movie) (watchlist (app s))")
     (auto simp: addToWatchlist_present addToWatchlist_absent list_ex_iff)

text \<open>
  Claim C8. Adding the same movie twice in succession to a watchlist with no duplicate
  id: the second call leaves the collection store as the first call left it, the
  watchlist holds exactly one entry of that movie id, the second call shows the plain
  "already present" toast, the first call shows the "added" success toast when the
  movie was not there before, and the two toasts differ.
\<close>

theorem addToWatchlist_idempotent:
  assumes "distinct (map id_M (watchlist (app s)))"
  shows "app (addToWatchlist env movie (addToWatchlist env movie s)) = app (addToWatchlist env movie s)
    \<and> length (filter (\<lambda>m. id_M m = id_M movie)
          (watchlist (app (addToWatchlist env movie (addToWatchlist env movie s))))) = 1
    \<and> toasts (world (addToWatchlist env movie (addToWatchlist env movie s)))
        = toasts (world (addToWatchlist env movie s)) @ [toast_plain already_in_watchlist]
    \<and> (\<not> isInWatchlist (id_M movie) s \<longrightarrow>
         toasts (world (addToWatchlist env movie s))
           = toasts (world s) @ [toast_success added_to_watchlist])
    \<and> toast_plain already_in_watchlist \<noteq> toast_success added_to_watchlist"
proof -
  let ?s1 = "addToWatchlist env movie s"
  have c: "list_ex (\<lambda>m. id_M m = id_M movie) (watchlist (app ?s1))"
    by (rule addToWatchlist_contains)
  have d: "distinct (map id_M (watchlist (app ?s1)))"
    using assms by (rule addToWatchlist_distinct)
  from c have "id_M movie \<in> id_M ` set (watchlist (app ?s1))"
    unfolding list_ex_iff by (metis imageI)
  with d have one: "length (filter (\<lambda>m. id_M m = id_M movie) (watchlist (app ?s1))) = 1"
    by (rule count_key_distinct)
  from addToWatchlist_present [OF c, of env] one
  show ?thesis by (simp add: isInWatchlist_def addToWatchlist_absent)
qed

theorem addToWatchlist_idempotent_witness:
  "distinct (map id_M (watchlist (app initial_sys)))
   \<and> \<not> isInWatchlist (id_M movie_a) initial_sys
   \<and> watchlist (app (addToWatchlist offline_env movie_a (addToWatchlist offline_env movie_a initial_sys)))
       = [movie_a]
   \<and> toasts (world (addToWatchlist offline_env movie_a (addToWatchlist offline_env movie_a initial_sys)))
       = [toast_success added_to_watchlist, toast_plain already_in_watchlist]"
  using addToWatchlist_idempotent [of initial_sys offline_env movie_a]
  by (simp add: initial_sys_def initial_app_def browser_def isInWatchlist_def addToWatchlist_absent)

section \<open>Properties of the gateway\<close>

lemma api_0: "api 0 env config w = None"
  by (simp add: api.simps)

lemma api_Suc:
  "api (Suc n) env config w =
     (case settle (request_interceptor w config) (server env (clock w) (request_interceptor w config)) of
        Inr d \<Rightarrow> Some (Inr d, dispatched w (request_interceptor w config))
      | Inl e \<Rightarrow> response_rejected n env e (dispatched w (request_interceptor w config)))"
  by (simp add: api.simps dispatch_def Let_def)

lemma response_rejected_other:
  "\<not> (\<exists>d config. e = AxiosError_response 401 d config \<and> \<not> retry config) \<Longrightarrow>
   response_rejected n env e w = Some (Inl e, w)"
  by (cases e) (auto simp: response_rejected.simps)

lemma response_rejected_401:
  "\<not> retry config \<Longrightarrow>
   response_rejected n env (AxiosError_response 401 d config) w =
     (case ApiService_refreshToken n env w of
        None \<Rightarrow> None
      | Some (Inr tokens', w1) \<Rightarrow>
          api n env
            (case truthy_value (getToken w1) of
               Some token \<Rightarrow> config\<lparr>retry := True, Authorization := Some (''Bearer '' @ token)\<rparr>
             | None \<Rightarrow> config\<lparr>retry := True\<rparr>) w1
      | Some (Inl refreshError, w1) \<Rightarrow>
          (if window (ApiService_logout w1)
           then Some (Inl (Thrown refreshError), (ApiService_logout w1)\<lparr>href := ''/login''\<rparr>)
           else Some (Inl (Error ''window is not defined''), ApiService_logout w1)))"
  by (simp add: response_rejected.simps Let_def split: option.splits sum.splits prod.splits)

lemma url_request_interceptor: "url (request_interceptor w config) = url config"
  by (simp add: request_interceptor_def split: option.splits)

text \<open>
  A body that a call of the instance returns is the body of a success reply of the
  backend to a request for the path of the call.
\<close>

lemma gateway_success:
  shows "api n env c w = Some (Inr b, w') \<Longrightarrow>
           \<exists>k rq st. server env k rq = Response st b \<and> validateStatus st \<and> url rq = url c"
    and "response_rejected n env e w = Some (Inr b, w') \<Longrightarrow>
           \<exists>k rq st. server env k rq = Response st b \<and> validateStatus st \<and> url rq \<in> err_url e"
    and "ApiService_refreshToken n env w = Some (r2, w') \<Longrightarrow> True"
proof (induction n env c w and n env e w and n env w arbitrary: b w' and b w' and r2 w'
    rule: api_response_rejected_ApiService_refreshToken.induct)
  case (1 env config w)
  then show ?case by (simp add: api_0)
next
  case (2 n env config w)
  let ?c = "request_interceptor w config"
  have d: "dispatch env ?c w = (server env (clock w) ?c, dispatched w ?c)"
    by (simp add: dispatch_def)
  show ?case
  proof (cases "settle ?c (server env (clock w) ?c)")
    case (Inr b')
    with "2.prems" have "b' = b" by (simp add: api_Suc)
    with Inr obtain st where "server env (clock w) ?c = Response st b" and "validateStatus st"
      by (auto simp: settle_def split: reply.splits if_splits)
    then show ?thesis using url_request_interceptor [of w config] by blast
  next
    case (Inl e)
    with "2.prems" have "response_rejected n env e (dispatched w ?c) = Some (Inr b, w')"
      by (simp add: api_Suc)
    from "2.IH" [OF refl refl d [symmetric] Inl this]
    obtain k rq st where rq: "server env k rq = Response st b" "validateStatus st" "url rq \<in> err_url e"
      by blast
    from Inl have "err_url e \<subseteq> {url config}"
      by (auto simp: settle_def url_request_interceptor split: reply.splits if_splits)
    with rq show ?thesis by blast
  qed
next
  case (3 n env e w)
  show ?case
  proof (cases "\<exists>d config. e = AxiosError_response 401 d config \<and> \<not> retry config")
    case False
    with "3.prems" show ?thesis by (simp add: response_rejected_other)
  next
    case True
    then obtain d config where e: "e = AxiosError_response 401 d config" and nr: "\<not> retry config"
      by blast
    have c: "(401::int) = 401 \<and> \<not> retry config" using nr by simp
    show ?thesis
    proof (cases "ApiService_refreshToken n env w")
      case None
      with e nr "3.prems" show ?thesis by (simp add: response_rejected_401)
    next
      case (Some x)
      obtain res w1 where x: "x = (res, w1)" by (cases x)
      show ?thesis
      proof (cases res)
        case (Inl refreshError)
        with e nr Some x "3.prems" show ?thesis
          by (simp add: response_rejected_401 split: if_splits)
      next
        case (Inr t)
        let ?c = "case truthy_value (getToken w1) of None \<Rightarrow> config\<lparr>retry := True\<rparr>
                  | Some token \<Rightarrow> config\<lparr>retry := True\<rparr>\<lparr>Authorization := Some (''Bearer '' @ token)\<rparr>"
        from Inr e nr Some x "3.prems" have "api n env ?c w1 = Some (Inr b, w')"
          by (simp add: response_rejected_401 split: option.splits)
        from "3.IH"(2) [OF e c refl Some x [symmetric] Inr this]
        obtain k rq st where "server env k rq = Response st b" "validateStatus st" "url rq = url ?c"
          by blast
        moreover have "url ?c = url config" by (simp split: option.splits)
        ultimately show ?thesis using e by auto
      qed
    qed
  qed
next
  case (4 n env w)
  show ?case by simp
qed

text \<open>
  A property of the browser state that dispatching, storing a token pair, the
  gateway logout and the navigation keep is kept by every call of the instance.
  The pairs stored are those read from the success replies to refresh requests.
\<close>

lemma gateway_preserves_issued:
  assumes disp: "\<And>w c. P w \<Longrightarrow> P (dispatched w c)"
    and setT: "\<And>w t. P w \<Longrightarrow> Q t \<Longrightarrow> P (setTokens t w)"
    and out: "\<And>w. P w \<Longrightarrow> P (ApiService_logout w)"
    and nav: "\<And>w h. P w \<Longrightarrow> P (w\<lparr>href := h\<rparr>)"
  shows "api n env c w = Some (r, w') \<Longrightarrow>
           (\<forall>k rq st d. server env k rq = Response st d \<longrightarrow> validateStatus st \<longrightarrow>
               url rq = ''/token/refresh/'' \<longrightarrow> Q (body_tokens d)) \<Longrightarrow> P w \<Longrightarrow> P w'"
    and "response_rejected n env e w = Some (r, w') \<Longrightarrow>
           (\<forall>k rq st d. server env k rq = Response st d \<longrightarrow> validateStatus st \<longrightarrow>
               url rq = ''/token/refresh/'' \<longrightarrow> Q (body_tokens d)) \<Longrightarrow> P w \<Longrightarrow> P w'"
    and "ApiService_refreshToken n env w = Some (r2, w') \<Longrightarrow>
           (\<forall>k rq st d. server env k rq = Response st d \<longrightarrow> validateStatus st \<longrightarrow>
               url rq = ''/token/refresh/'' \<longrightarrow> Q (body_tokens d)) \<Longrightarrow> P w \<Longrightarrow> P w'"
proof (induction n env c w and n env e w and n env w arbitrary: r w' and r w' and r2 w'
    rule: api_response_rejected_ApiService_refreshToken.induct)
  case (1 env config w)
  then show ?case by (simp add: api_0)
next
  case (2 n env config w)
  let ?c = "request_interceptor w config"
  have Pw: "P (dispatched w ?c)" using "2.prems"(3) by (rule disp)
  have d: "dispatch env ?c w = (server env (clock w) ?c, dispatched w ?c)"
    by (simp add: dispatch_def)
  show ?case
  proof (cases "settle ?c (server env (clock w) ?c)")
    case (Inr b)
    with "2.prems"(1) have "w' = dispatched w ?c" by (simp add: api_Suc)
    with Pw show ?thesis by simp
  next
    case (Inl e)
    with "2.prems"(1) have "response_rejected n env e (dispatched w ?c) = Some (r, w')"
      by (simp add: api_Suc)
    from "2.IH" [OF refl refl d [symmetric] Inl this "2.prems"(2) Pw] show ?thesis .
  qed
next
  case (3 n env e w)
  show ?case
  proof (cases "\<exists>d config. e = AxiosError_response 401 d config \<and> \<not> retry config")
    case False
    with "3.prems" show ?thesis by (simp add: response_rejected_other)
  next
    case True
    then obtain d config where e: "e = AxiosError_response 401 d config" and nr: "\<not> retry config"
      by blast
    have c: "(401::int) = 401 \<and> \<not> retry config" using nr by simp
    show ?thesis
    proof (cases "ApiService_refreshToken n env w")
      case None
      with e nr "3.prems"(1) show ?thesis by (simp add: response_rejected_401)
    next
      case (Some x)
      obtain res w1 where x: "x = (res, w1)" by (cases x)
      from "3.IH"(1) [OF e c refl Some [unfolded x] "3.prems"(2) "3.prems"(3)] have Pw1: "P w1" .
      show ?thesis
      proof (cases res)
        case (Inl refreshError)
        with e nr Some x "3.prems"(1)
        have "w' = (ApiService_logout w1)\<lparr>href := ''/login''\<rparr> \<or> w' = ApiService_logout w1"
          by (simp add: response_rejected_401 split: if_splits)
        with Pw1 show ?thesis by (auto intro: out nav)
      next
        case (Inr b)
        let ?c = "case truthy_value (getToken w1) of None \<Rightarrow> config\<lparr>retry := True\<rparr>
                  | Some token \<Rightarrow> config\<lparr>retry := True\<rparr>\<lparr>Authorization := Some (''Bearer '' @ token)\<rparr>"
        from Inr e nr Some x "3.prems"(1) have "api n env ?c w1 = Some (r, w')"
          by (simp add: response_rejected_401 split: option.splits)
        from "3.IH"(2) [OF e c refl Some x [symmetric] Inr this "3.prems"(2) Pw1] show ?thesis .
      qed
    qed
  qed
next
  case (4 n env w)
  show ?case
  proof (cases "truthy_value (getRefreshToken w)")
    case None
    with "4.prems" show ?thesis by (simp add: ApiService_refreshToken.simps)
  next
    case (Some rt)
    note rt = this
    show ?thesis
    proof (cases "api n env (new_request POST ''/token/refresh/'' (refresh_data rt)) w")
      case None
      with rt "4.prems"(1) show ?thesis by (simp add: ApiService_refreshToken.simps)
    next
      case (Some x)
      obtain res w1 where x: "x = (res, w1)" by (cases x)
      from "4.IH" [OF rt Some [unfolded x] "4.prems"(2) "4.prems"(3)] have Pw1: "P w1" .
      show ?thesis
      proof (cases res)
        case (Inl e)
        with rt Some x "4.prems"(1) have "w' = w1"
          by (simp add: ApiService_refreshToken.simps)
        with Pw1 show ?thesis by simp
      next
        case (Inr b)
        with rt Some x "4.prems"(1) have w': "w' = setTokens (body_tokens b) w1"
          by (simp add: ApiService_refreshToken.simps Let_def)
        from gateway_success(1) [OF Some [unfolded x Inr]]
        obtain k rq st where "server env k rq = Response st b" "validateStatus st"
          "url rq = ''/token/refresh/''"
          by (auto simp: new_request_def)
        with "4.prems"(2) have "Q (body_tokens b)" by blast
        with Pw1 w' show ?thesis by (simp add: setT)
      qed
    qed
  qed
qed

lemma gateway_preserves:
  assumes disp: "\<And>w c. P w \<Longrightarrow> P (dispatched w c)"
    and setT: "\<And>w t. P w \<Longrightarrow> P (setTokens t w)"
    and out: "\<And>w. P w \<Longrightarrow> P (ApiService_logout w)"
    and nav: "\<And>w h. P w \<Longrightarrow> P (w\<lparr>href := h\<rparr>)"
  shows "api n env c w = Some (r, w') \<Longrightarrow> P w \<Longrightarrow> P w'"
    and "response_rejected n env e w = Some (r, w') \<Longrightarrow> P w \<Longrightarrow> P w'"
    and "ApiService_refreshToken n env w = Some (r2, w') \<Longrightarrow> P w \<Longrightarrow> P w'"
proof -
  have setT': "\<And>w t. P w \<Longrightarrow> True \<Longrightarrow> P (setTokens t w)" by (rule setT)
  note g = gateway_preserves_issued [where P = P and Q = "\<lambda>t. True", OF disp setT' out nav]
  show "api n env c w = Some (r, w') \<Longrightarrow> P w \<Longrightarrow> P w'" using g(1) by blast
  show "response_rejected n env e w = Some (r, w') \<Longrightarrow> P w \<Longrightarrow> P w'" using g(2) by blast
  show "ApiService_refreshToken n env w = Some (r2, w') \<Longrightarrow> P w \<Longrightarrow> P w'" using g(3) by blast
qed

lemmas world_defs = dispatched_def setTokens_def clearTokens_def ApiService_logout_def
  setItem_def removeItem_def getItem_def getToken_def getRefreshToken_def

lemma api_window:
  "api n env c w = Some (r, w') \<Longrightarrow> window w' = window w"
  by (rule gateway_preserves(1) [where P = "\<lambda>x. window x = window w"])
     (simp_all add: world_defs)

lemma refreshToken_window:
  "ApiService_refreshToken n env w = Some (r, w') \<Longrightarrow> window w' = window w"
  by (rule gateway_preserves(3) [where P = "\<lambda>x. window x = window w"])
     (simp_all add: world_defs)

lemma api_frame:
  "api n env c w = Some (r, w') \<Longrightarrow>
   k \<noteq> ''access_token'' \<Longrightarrow> k \<noteq> ''refresh_token'' \<Longrightarrow> k \<noteq> ''user'' \<Longrightarrow>
   localStorage w' k = localStorage w k \<and> toasts w' = toasts w"
  by (rule gateway_preserves(1) [where P = "\<lambda>x. localStorage x k = localStorage w k \<and> toasts x = toasts w"])
     (simp_all add: world_defs)

lemma refreshToken_frame:
  "ApiService_refreshToken n env w = Some (r, w') \<Longrightarrow>
   k \<noteq> ''access_token'' \<Longrightarrow> k \<noteq> ''refresh_token'' \<Longrightarrow> k \<noteq> ''user'' \<Longrightarrow>
   localStorage w' k = localStorage w k \<and> toasts w' = toasts w"
  by (rule gateway_preserves(3) [where P = "\<lambda>x. localStorage x k = localStorage w k \<and> toasts x = toasts w"])
     (simp_all add: world_defs)

lemma truthy_value_Some: "truthy_value v = Some s \<longleftrightarrow> v = Some s \<and> s \<noteq> []"
  by (auto simp: truthy_value_def split: option.splits)

lemma refreshToken_success:
  assumes "ApiService_refreshToken n env w = Some (Inr t, w1)"
  shows "window w1 \<and> getToken w1 = Some (access t) \<and> getRefreshToken w1 = Some (refresh t)
         \<and> n \<noteq> 0"
proof (cases "truthy_value (getRefreshToken w)")
  case None
  with assms show ?thesis by (simp add: ApiService_refreshToken.simps)
next
  case (Some rt)
  then have win: "window w"
    by (auto simp: truthy_value_Some getRefreshToken_def split: if_splits)
  from Some assms obtain b w0 where
    a: "api n env (new_request POST ''/token/refresh/'' (refresh_data rt)) w = Some (Inr b, w0)"
    and w1: "w1 = setTokens t w0"
    by (auto simp: ApiService_refreshToken.simps Let_def split: option.splits sum.splits)
  from a win have "window w0" by (simp add: api_window)
  moreover from a have "n \<noteq> 0" by (cases n) (simp_all add: api_0)
  ultimately show ?thesis using w1 by (simp add: world_defs)
qed

text \<open>A request that carries the retry mark is dispatched once and its outcome is final.\<close>

lemma api_retry_final:
  assumes "retry config"
  shows "api (Suc n) env config w =
     Some (settle (request_interceptor w config) (server env (clock w) (request_interceptor w config)),
           dispatched w (request_interceptor w config))"
proof -
  let ?c = "request_interceptor w config"
  from assms have r: "retry ?c"
    by (simp add: request_interceptor_def split: option.splits)
  show ?thesis
  proof (cases "settle ?c (server env (clock w) ?c)")
    case (Inr d)
    then show ?thesis by (simp add: api_Suc)
  next
    case (Inl e)
    with r have "\<not> (\<exists>d config. e = AxiosError_response 401 d config \<and> \<not> retry config)"
      by (auto simp: settle_def split: reply.splits if_splits)
    with Inl show ?thesis by (simp add: api_Suc response_rejected_other)
  qed
qed

lemma api_unauthorized:
  assumes "server env (clock w) (request_interceptor w config) = Response 401 d"
    and "\<not> retry config"
  shows "api (Suc n) env config w =
     response_rejected n env (AxiosError_response 401 d (request_interceptor w config))
       (dispatched w (request_interceptor w config))"
  using assms by (simp add: api_Suc settle_def validateStatus_def)

lemma not_retry_request_interceptor: "retry (request_interceptor w config) = retry config"
  by (simp add: request_interceptor_def split: option.splits)

lemmas example_defs = signed_in_browser_def browser_def get_favorites_def refresh_script_def
  example_env_def scripted_def tokens_1_def tokens_2_def alice_def favorite_a_def new_request_def

lemma sent_since_refl: "sent w' = sent w \<Longrightarrow> sent_since w w' paths"
  by (simp add: sent_since_def)

lemma sent_since_trans:
  "sent_since w w1 A \<Longrightarrow> sent_since w1 w2 B \<Longrightarrow> A \<subseteq> C \<Longrightarrow> B \<subseteq> C \<Longrightarrow> sent_since w w2 C"
  unfolding sent_since_def by (elim exE conjE, rule_tac x = "xs @ xsa" in exI) auto

lemma sent_since_dispatched: "url c \<in> paths \<Longrightarrow> sent_since w (dispatched w c) paths"
  by (simp add: sent_since_def dispatched_def)

lemma gateway_sent:
  shows "api n env c w = Some (r, w') \<Longrightarrow> sent_since w w' {url c, ''/token/refresh/''}"
    and "response_rejected n env e w = Some (r, w') \<Longrightarrow>
           sent_since w w' (insert ''/token/refresh/'' (err_url e))"
    and "ApiService_refreshToken n env w = Some (r2, w') \<Longrightarrow> sent_since w w' {''/token/refresh/''}"
proof (induction n env c w and n env e w and n env w arbitrary: r w' and r w' and r2 w'
    rule: api_response_rejected_ApiService_refreshToken.induct)
  case (1 env config w)
  then show ?case by (simp add: api_0)
next
  case (2 n env config w)
  let ?c = "request_interceptor w config"
  have first: "sent_since w (dispatched w ?c) {url config, ''/token/refresh/''}"
    by (rule sent_since_dispatched) (simp add: url_request_interceptor)
  have d: "dispatch env ?c w = (server env (clock w) ?c, dispatched w ?c)"
    by (simp add: dispatch_def)
  show ?case
  proof (cases "settle ?c (server env (clock w) ?c)")
    case (Inr b)
    with "2.prems" have "w' = dispatched w ?c" by (simp add: api_Suc)
    with first show ?thesis by simp
  next
    case (Inl e)
    with "2.prems" have "response_rejected n env e (dispatched w ?c) = Some (r, w')"
      by (simp add: api_Suc)
    from "2.IH" [OF refl refl d [symmetric] Inl this]
    have rest: "sent_since (dispatched w ?c) w' (insert ''/token/refresh/'' (err_url e))" .
    from Inl have "err_url e \<subseteq> {url config}"
      by (auto simp: settle_def url_request_interceptor split: reply.splits if_splits)
    then have "insert ''/token/refresh/'' (err_url e) \<subseteq> {url config, ''/token/refresh/''}"
      by auto
    from sent_since_trans [OF first rest subset_refl this] show ?thesis .
  qed
next
  case (3 n env e w)
  show ?case
  proof (cases "\<exists>d config. e = AxiosError_response 401 d config \<and> \<not> retry config")
    case False
    with "3.prems" have "w' = w" by (simp add: response_rejected_other)
    then show ?thesis by (simp add: sent_since_refl)
  next
    case True
    then obtain d config where e: "e = AxiosError_response 401 d config" and nr: "\<not> retry config"
      by blast
    have c: "(401::int) = 401 \<and> \<not> retry config" using nr by simp
    show ?thesis
    proof (cases "ApiService_refreshToken n env w")
      case None
      with e nr "3.prems" show ?thesis by (simp add: response_rejected_401)
    next
      case (Some x)
      obtain res w1 where x: "x = (res, w1)" by (cases x)
      from "3.IH"(1) [OF e c refl Some [unfolded x]]
      have first: "sent_since w w1 {''/token/refresh/''}" .
      show ?thesis
      proof (cases res)
        case (Inl refreshError)
        with e nr Some x "3.prems"
        have "w' = (ApiService_logout w1)\<lparr>href := ''/login''\<rparr> \<or> w' = ApiService_logout w1"
          by (simp add: response_rejected_401 split: if_splits)
        then have "sent w' = sent w1" by (auto simp: world_defs)
        then have "sent_since w1 w' {}" by (rule sent_since_refl)
        from sent_since_trans [OF first this] show ?thesis by simp
      next
        case (Inr b)
        let ?c = "case truthy_value (getToken w1) of None \<Rightarrow> config\<lparr>retry := True\<rparr>
                  | Some token \<Rightarrow> config\<lparr>retry := True\<rparr>\<lparr>Authorization := Some (''Bearer '' @ token)\<rparr>"
        from Inr e nr Some x "3.prems" have "api n env ?c w1 = Some (r, w')"
          by (simp add: response_rejected_401 split: option.splits)
        from "3.IH"(2) [OF e c refl Some x [symmetric] Inr this]
        have "sent_since w1 w' {url ?c, ''/token/refresh/''}" .
        moreover have "url ?c = url config" by (simp split: option.splits)
        ultimately have rest: "sent_since w1 w' {url config, ''/token/refresh/''}" by simp
        from sent_since_trans [OF first rest] e show ?thesis by auto
      qed
    qed
  qed
next
  case (4 n env w)
  show ?case
  proof (cases "truthy_value (getRefreshToken w)")
    case None
    with "4.prems" have "w' = w" by (simp add: ApiService_refreshToken.simps)
    then show ?thesis by (simp add: sent_since_refl)
  next
    case (Some rt)
    note rt = this
    show ?thesis
    proof (cases "api n env (new_request POST ''/token/refresh/'' (refresh_data rt)) w")
      case None
      with rt "4.prems" show ?thesis by (simp add: ApiService_refreshToken.simps)
    next
      case (Some x)
      obtain res w1 where x: "x = (res, w1)" by (cases x)
      from "4.IH" [OF rt Some [unfolded x]]
      have first: "sent_since w w1 {''/token/refresh/''}" by (simp add: new_request_def)
      from rt Some x "4.prems" have "w' = w1 \<or> (\<exists>t. w' = setTokens t w1)"
        by (auto simp: ApiService_refreshToken.simps Let_def split: sum.splits)
      then have "sent w' = sent w1" by (auto simp: world_defs)
      then have "sent_since w1 w' {}" by (rule sent_since_refl)
      from sent_since_trans [OF first this] show ?thesis by simp
    qed
  qed
qed

text \<open>
  A larger bound on the nesting never changes a result that a smaller one gives:
  the bound is not part of the behaviour.
\<close>

lemma gateway_fuel_Suc:
  shows "api n env c w = Some r \<Longrightarrow> api (Suc n) env c w = Some r"
    and "response_rejected n env e w = Some r \<Longrightarrow> response_rejected (Suc n) env e w = Some r"
    and "ApiService_refreshToken n env w = Some r2 \<Longrightarrow> ApiService_refreshToken (Suc n) env w = Some r2"
proof (induction n env c w and n env e w and n env w arbitrary: r and r and r2
    rule: api_response_rejected_ApiService_refreshToken.induct)
  case (1 env config w)
  then show ?case by (simp add: api_0)
next
  case (2 n env config w)
  let ?c = "request_interceptor w config"
  have d: "dispatch env ?c w = (server env (clock w) ?c, dispatched w ?c)"
    by (simp add: dispatch_def)
  show ?case
  proof (cases "settle ?c (server env (clock w) ?c)")
    case (Inr b)
    with "2.prems" show ?thesis by (simp add: api_Suc)
  next
    case (Inl e)
    with "2.prems" have "response_rejected n env e (dispatched w ?c) = Some r"
      by (simp add: api_Suc)
    from "2.IH" [OF refl refl d [symmetric] Inl this] Inl show ?thesis
      by (simp add: api_Suc [of "Suc n"])
  qed
next
  case (3 n env e w)
  show ?case
  proof (cases "\<exists>d config. e = AxiosError_response 401 d config \<and> \<not> retry config")
    case False
    with "3.prems" show ?thesis by (simp add: response_rejected_other)
  next
    case True
    then obtain d config where e: "e = AxiosError_response 401 d config" and nr: "\<not> retry config"
      by blast
    have c: "(401::int) = 401 \<and> \<not> retry config" using nr by simp
    show ?thesis
    proof (cases "ApiService_refreshToken n env w")
      case None
      with e nr "3.prems" show ?thesis by (simp add: response_rejected_401)
    next
      case (Some x)
      obtain res w1 where x: "x = (res, w1)" by (cases x)
      from "3.IH"(1) [OF e c refl Some]
      have up: "ApiService_refreshToken (Suc n) env w = Some x" .
      show ?thesis
      proof (cases res)
        case (Inl refreshError)
        with e nr Some x up "3.prems" show ?thesis by (simp add: response_rejected_401)
      next
        case (Inr b)
        let ?c = "case truthy_value (getToken w1) of None \<Rightarrow> config\<lparr>retry := True\<rparr>
                  | Some token \<Rightarrow> config\<lparr>retry := True\<rparr>\<lparr>Authorization := Some (''Bearer '' @ token)\<rparr>"
        from Inr e nr Some x "3.prems" have "api n env ?c w1 = Some r"
          by (simp add: response_rejected_401 split: option.splits)
        from "3.IH"(2) [OF e c refl Some x [symmetric] Inr this]
        have "api (Suc n) env ?c w1 = Some r" .
        with Inr e nr x up show ?thesis
          by (simp add: response_rejected_401 [of config "Suc n"] split: option.splits)
      qed
    qed
  qed
next
  case (4 n env w)
  show ?case
  proof (cases "truthy_value (getRefreshToken w)")
    case None
    with "4.prems" show ?thesis by (simp add: ApiService_refreshToken.simps)
  next
    case (Some rt)
    note rt = this
    show ?thesis
    proof (cases "api n env (new_request POST ''/token/refresh/'' (refresh_data rt)) w")
      case None
      with rt "4.prems" show ?thesis by (simp add: ApiService_refreshToken.simps)
    next
      case (Some x)
      from "4.IH" [OF rt Some]
      have "api (Suc n) env (new_request POST ''/token/refresh/'' (refresh_data rt)) w = Some x" .
      with rt Some "4.prems" show ?thesis
        by (simp add: ApiService_refreshToken.simps [of n] ApiService_refreshToken.simps [of "Suc n"])
    qed
  qed
qed

lemma api_fuel_mono: "api n env c w = Some r \<Longrightarrow> n \<le> m \<Longrightarrow> api m env c w = Some r"
  by (induction m) (auto simp: le_Suc_eq gateway_fuel_Suc(1))

text \<open>
  Claim C2. A request (not yet marked as retried) whose reply is 401 and whose token
  refresh then succeeds with a non-empty access token: after the refresh the gateway
  dispatches exactly one more request, the original one with the retry mark and the
  new access token as bearer, and the caller receives the outcome of that request -
  its body when the reply is a success, and a final error when the reply is 401 again.
  Between the two dispatches only refresh requests were sent. A request that carries
  the retry mark is always dispatched once and its outcome is final.
\<close>

theorem refresh_then_retry_once:
  assumes first: "server env (clock w) (request_interceptor w config) = Response 401 d"
    and fresh: "\<not> retry config"
    and refreshed: "ApiService_refreshToken n env (dispatched w (request_interceptor w config))
                      = Some (Inr tokens', w1)"
    and nonempty: "access tokens' \<noteq> []"
    and retried: "retried = (request_interceptor w config)
                    \<lparr>retry := True, Authorization := Some (''Bearer '' @ access tokens')\<rparr>"
  shows "api (Suc n) env config w
           = Some (settle retried (server env (clock w1) retried), dispatched w1 retried)
    \<and> (\<forall>st d'. server env (clock w1) retried = Response st d' \<and> validateStatus st \<longrightarrow>
          api (Suc n) env config w = Some (Inr d', dispatched w1 retried))
    \<and> (\<forall>d'. server env (clock w1) retried = Response 401 d' \<longrightarrow>
          api (Suc n) env config w
            = Some (Inl (AxiosError_response 401 d' retried), dispatched w1 retried))
    \<and> (\<exists>xs. sent (dispatched w1 retried)
               = sent w @ [request_interceptor w config] @ xs @ [retried]
             \<and> (\<forall>x \<in> set xs. url x = ''/token/refresh/''))
    \<and> (\<forall>k c' w'. retry c' \<longrightarrow>
          api (Suc k) env c' w'
            = Some (settle (request_interceptor w' c') (server env (clock w') (request_interceptor w' c')),
                    dispatched w' (request_interceptor w' c')))"
proof -
  let ?c = "request_interceptor w config"
  from refreshToken_success [OF refreshed]
  have win: "window w1" and tok: "getToken w1 = Some (access tokens')" and n: "n \<noteq> 0"
    by simp_all
  from n obtain m where m: "n = Suc m" by (cases n) simp_all
  from tok nonempty have tv: "truthy_value (getToken w1) = Some (access tokens')"
    by (simp add: truthy_value_Some)
  have ri: "request_interceptor w1 retried = retried"
    using tv retried by (simp add: request_interceptor_def)
  have "api (Suc n) env config w = api n env retried w1"
    using first fresh refreshed tv retried
    by (simp add: api_unauthorized response_rejected_401 not_retry_request_interceptor)
  also have "\<dots> = Some (settle retried (server env (clock w1) retried), dispatched w1 retried)"
    using api_retry_final [of retried m env w1] retried ri m by simp
  finally have main: "api (Suc n) env config w
      = Some (settle retried (server env (clock w1) retried), dispatched w1 retried)" .
  from gateway_sent(3) [OF refreshed]
  obtain xs where xs: "sent w1 = sent (dispatched w ?c) @ xs"
    and urls: "url ` set xs \<subseteq> {''/token/refresh/''}"
    by (auto simp: sent_since_def)
  from xs have "sent (dispatched w1 retried) = sent w @ [?c] @ xs @ [retried]"
    by (simp add: dispatched_def)
  moreover from urls have "\<forall>x \<in> set xs. url x = ''/token/refresh/''" by auto
  ultimately have log: "\<exists>xs. sent (dispatched w1 retried) = sent w @ [?c] @ xs @ [retried]
      \<and> (\<forall>x \<in> set xs. url x = ''/token/refresh/'')" by blast
  from main log show ?thesis
    by (simp add: settle_def validateStatus_def api_retry_final)
qed

lemma refresh_example:
  "ApiService_refreshToken (Suc 0) (example_env refresh_script)
      (dispatched signed_in_browser (request_interceptor signed_in_browser get_favorites))
    = Some (Inr tokens_2, refreshed_browser)"
  by (simp add: ApiService_refreshToken.simps api_Suc refreshed_browser_def example_defs world_defs
      request_interceptor_def truthy_value_def settle_def validateStatus_def body_tokens_def Let_def)

theorem refresh_then_retry_once_witness:
  "server (example_env refresh_script) (clock signed_in_browser)
      (request_interceptor signed_in_browser get_favorites) = Response 401 empty_body
   \<and> \<not> retry get_favorites
   \<and> ApiService_refreshToken (Suc 0) (example_env refresh_script)
        (dispatched signed_in_browser (request_interceptor signed_in_browser get_favorites))
        = Some (Inr tokens_2, refreshed_browser)
   \<and> access tokens_2 \<noteq> []
   \<and> api (Suc (Suc 0)) (example_env refresh_script) get_favorites signed_in_browser
        = Some (Inr (favorites_body [favorite_a]),
                dispatched refreshed_browser
                  (get_favorites\<lparr>retry := True, Authorization := Some ''Bearer a2''\<rparr>))"
  using refresh_then_retry_once [of "example_env refresh_script" signed_in_browser get_favorites
      empty_body "Suc 0" tokens_2 refreshed_browser
      "(request_interceptor signed_in_browser get_favorites)
         \<lparr>retry := True, Authorization := Some (''Bearer '' @ access tokens_2)\<rparr>"]
    refresh_example
  by (simp add: example_defs world_defs refreshed_browser_def request_interceptor_def
      truthy_value_def settle_def validateStatus_def)

text \<open>
  The refresh request goes through the intercepted instance. When the backend
  answers it with 401 as well, the interceptor awaits a further refresh for it, and
  so on: while a refresh token is stored, no bound on the nesting is enough for the
  call to return.
\<close>

lemma refresh_loop:
  assumes "\<And>k r. server env k r = Response 401 (d k r)"
  shows "window w \<Longrightarrow> truthy_value (localStorage w ''refresh_token'') \<noteq> None \<Longrightarrow> \<not> retry config \<Longrightarrow>
         api n env config w = None"
proof (induction n arbitrary: w config)
  case 0
  then show ?case by (simp add: api_0)
next
  case (Suc n)
  let ?c = "request_interceptor w config"
  let ?w = "dispatched w ?c"
  from Suc.prems obtain rt where rt: "truthy_value (getRefreshToken ?w) = Some rt"
    by (auto simp: world_defs)
  have "api n env (new_request POST ''/token/refresh/'' (refresh_data rt)) ?w = None"
    using Suc.prems by (intro Suc.IH) (simp_all add: world_defs new_request_def)
  with rt have "ApiService_refreshToken n env ?w = None"
    by (simp add: ApiService_refreshToken.simps)
  with Suc.prems(3) assms [of "clock w" ?c] show ?case
    by (simp add: api_unauthorized response_rejected_401 not_retry_request_interceptor)
qed

theorem refresh_rejected_never_returns:
  "\<forall>n. api n unauthorized_env get_favorites signed_in_browser = None"
proof
  fix n
  show "api n unauthorized_env get_favorites signed_in_browser = None"
    by (rule refresh_loop [where d = "\<lambda>k r. empty_body"])
       (simp_all add: unauthorized_env_def example_defs truthy_value_def)
qed

section \<open>Forced logout, the persisted session and startup reconciliation\<close>

lemmas store_defs = login_def register_def logout_def refreshToken_def checkAuth_def
  loadFavorites_def addToFavorites_def removeFromFavorites_def set_auth_def set_app_def
  show_toast_def partialize_auth_def partialize_app_def

lemmas endpoint_defs = ApiService_login_def ApiService_register_def ApiService_getFavorites_def
  ApiService_addToFavorites_def ApiService_removeFromFavorites_def

lemmas eval_defs = api_Suc api_0 response_rejected_401 response_rejected_other
  ApiService_refreshToken.simps request_interceptor_def truthy_value_def settle_def
  validateStatus_def handleError.simps or_else_def or_default_def body_error_def body_message_def
  body_tokens_def body_user_def login_catch_def thrown_error_def TypeError_def
  JSON_parse_def JSON_stringify_def json_null_text_def json_whitespace_def
  numeral_2_eq_2 Let_def

lemmas scenario_defs = example_defs store_defs endpoint_defs
      eval_defs world_defs initial_sys_def initial_auth_def initial_app_def alice_credentials_def
      example_serialize_auth_def

text \<open>
  Claim C1 (a request gets 401, the refresh fails: the session ends cleared, with
  \<^verbatim>\<open>isAuthenticated\<close> false and both tokens absent, and the caller gets the
  error with a navigation to the login page). On the code the gateway clears its
  own storage keys and navigates, but the session store is not touched: after a
  login, a favorites request answered 401 and a refresh that gets no response, the
  stored tokens are gone and the location is the login page, while the session
  store still has \<^verbatim>\<open>isAuthenticated\<close> true, the user and both tokens.
\<close>

theorem forced_logout_keeps_session_store:
  "map_option (isAuthenticated \<circ> auth) session_expired_run = Some True
   \<and> map_option (tokens \<circ> auth) session_expired_run = Some (Some tokens_1)
   \<and> map_option (user \<circ> auth) session_expired_run = Some (Some alice)
   \<and> map_option (getToken \<circ> world) session_expired_run = Some None
   \<and> map_option (getRefreshToken \<circ> world) session_expired_run = Some None
   \<and> map_option (href \<circ> world) session_expired_run = Some ''/login''"
  by (simp add: session_expired_run_def session_expired_script_def scenario_defs)


lemma forced_logout:
  assumes "server env (clock w) (request_interceptor w config) = Response 401 d"
    and "\<not> retry config"
    and "window w"
    and "ApiService_refreshToken n env (dispatched w (request_interceptor w config))
           = Some (Inl refreshError, w1)"
  shows "api (Suc n) env config w
           = Some (Inl (Thrown refreshError), (clearTokens w1)\<lparr>href := ''/login''\<rparr>)"
proof -
  from assms(4) have "window w1 = window (dispatched w (request_interceptor w config))"
    by (rule refreshToken_window)
  with assms(3) have "window w1" by (simp add: dispatched_def)
  with assms show ?thesis
    by (simp add: api_unauthorized response_rejected_401 not_retry_request_interceptor
        ApiService_logout_def clearTokens_def removeItem_def)
qed

text \<open>
  Claim C10. The persist layer writes the user, the tokens and \<^verbatim>\<open>isAuthenticated\<close>
  under \<^verbatim>\<open>auth-storage\<close> and writes no other key; the gateway reads its tokens from
  \<^verbatim>\<open>access_token\<close> and \<^verbatim>\<open>refresh_token\<close>; \<^verbatim>\<open>clearTokens\<close> removes
  \<^verbatim>\<open>access_token\<close>, \<^verbatim>\<open>refresh_token\<close> and \<^verbatim>\<open>user\<close> and leaves every other
  key, \<^verbatim>\<open>auth-storage\<close> among them, as it was; no call of the axios instance changes
  \<^verbatim>\<open>auth-storage\<close>; and after the forced logout of the run above that record still
  holds the user, the tokens and \<^verbatim>\<open>isAuthenticated\<close> true.
\<close>

theorem auth_storage_not_synchronised:
  "(window (world s) \<longrightarrow>
      localStorage (world (set_auth env f s)) ''auth-storage''
        = Some (serialize_auth env
            \<lparr>p_user = user (f (auth s)), p_tokens = tokens (f (auth s)),
             p_isAuthenticated = isAuthenticated (f (auth s))\<rparr>))
   \<and> (\<forall>k. k \<noteq> ''auth-storage'' \<longrightarrow>
          localStorage (world (set_auth env f s)) k = localStorage (world s) k)
   \<and> getToken w = (if window w then localStorage w ''access_token'' else None)
   \<and> getRefreshToken w = (if window w then localStorage w ''refresh_token'' else None)
   \<and> (\<forall>k. localStorage (clearTokens w) k
          = (if window w \<and> k \<in> {''access_token'', ''refresh_token'', ''user''} then None
             else localStorage w k))
   \<and> localStorage (clearTokens w) ''auth-storage'' = localStorage w ''auth-storage''
   \<and> (api n env config w = Some (r, w') \<longrightarrow>
          localStorage w' ''auth-storage'' = localStorage w ''auth-storage'')
   \<and> map_option (\<lambda>s. localStorage (world s) ''auth-storage'') session_expired_run
        = Some (Some (serialize_auth (example_env session_expired_script)
            \<lparr>p_user = Some alice, p_tokens = Some tokens_1, p_isAuthenticated = True\<rparr>))
   \<and> map_option (getToken \<circ> world) session_expired_run = Some None
   \<and> map_option (href \<circ> world) session_expired_run = Some ''/login''"
proof -
  have persist: "window (world s) \<longrightarrow>
      localStorage (world (set_auth env f s)) ''auth-storage''
        = Some (serialize_auth env
            \<lparr>p_user = user (f (auth s)), p_tokens = tokens (f (auth s)),
             p_isAuthenticated = isAuthenticated (f (auth s))\<rparr>)"
    by (simp add: set_auth_def partialize_auth_def setItem_def Let_def)
  have own: "\<forall>k. k \<noteq> ''auth-storage'' \<longrightarrow>
          localStorage (world (set_auth env f s)) k = localStorage (world s) k"
    by (simp add: set_auth_def setItem_def Let_def)
  have reads: "getToken w = (if window w then localStorage w ''access_token'' else None)
      \<and> getRefreshToken w = (if window w then localStorage w ''refresh_token'' else None)"
    by (simp add: getToken_def getRefreshToken_def getItem_def)
  have clears: "\<forall>k. localStorage (clearTokens w) k
          = (if window w \<and> k \<in> {''access_token'', ''refresh_token'', ''user''} then None
             else localStorage w k)"
    by (simp add: clearTokens_def removeItem_def)
  have frame: "api n env config w = Some (r, w') \<longrightarrow>
          localStorage w' ''auth-storage'' = localStorage w ''auth-storage''"
    using api_frame [of n env config w r w' "''auth-storage''"] by simp
  have example: "map_option (\<lambda>s. localStorage (world s) ''auth-storage'') session_expired_run
        = Some (Some (serialize_auth (example_env session_expired_script)
            \<lparr>p_user = Some alice, p_tokens = Some tokens_1, p_isAuthenticated = True\<rparr>))
   \<and> map_option (getToken \<circ> world) session_expired_run = Some None
   \<and> map_option (href \<circ> world) session_expired_run = Some ''/login''"
    by (simp add: session_expired_run_def session_expired_script_def scenario_defs)
  from persist own reads clears frame example show ?thesis
    by (simp only: clearTokens_def removeItem_def) simp
qed


lemma api_offline_example:
  "api (Suc 0) (example_env []) get_favorites signed_in_browser
     = Some (Inl (AxiosError_request (get_favorites\<lparr>Authorization := Some ''Bearer a1''\<rparr>)),
             dispatched signed_in_browser (get_favorites\<lparr>Authorization := Some ''Bearer a1''\<rparr>))"
  by (simp add: scenario_defs)

theorem auth_storage_not_synchronised_witness:
  "window (world initial_sys)
   \<and> localStorage (world (set_auth (example_env []) (\<lambda>state. state\<lparr>isAuthenticated := True\<rparr>) initial_sys))
        ''auth-storage'' = Some ''T--''
   \<and> localStorage (clearTokens signed_in_browser) ''user'' = None
   \<and> localStorage (clearTokens signed_in_browser) ''auth-storage'' = None
   \<and> api (Suc 0) (example_env []) get_favorites signed_in_browser
        = Some (Inl (AxiosError_request (get_favorites\<lparr>Authorization := Some ''Bearer a1''\<rparr>)),
                dispatched signed_in_browser (get_favorites\<lparr>Authorization := Some ''Bearer a1''\<rparr>))
   \<and> localStorage (dispatched signed_in_browser (get_favorites\<lparr>Authorization := Some ''Bearer a1''\<rparr>))
        ''auth-storage'' = localStorage signed_in_browser ''auth-storage''"
  using auth_storage_not_synchronised [of initial_sys "example_env []"
      "\<lambda>state. state\<lparr>isAuthenticated := True\<rparr>" signed_in_browser "Suc 0"
      get_favorites "Inl (AxiosError_request (get_favorites\<lparr>Authorization := Some ''Bearer a1''\<rparr>))"
      "dispatched signed_in_browser (get_favorites\<lparr>Authorization := Some ''Bearer a1''\<rparr>)"]
    api_offline_example
  by (simp add: scenario_defs)



section \<open>Properties of the server-synchronised favorites\<close>









section \<open>Properties of a failed login or registration\<close>

















section \<open>The session invariant\<close>


lemma JSON_parse_undefined: "JSON_parse env ''undefined'' \<noteq> json_null"
  by (simp add: JSON_parse_def json_null_text_def json_whitespace_def split: option.splits)




































end
